theory Spec2Isabelle
  imports Main "HOL-Library.Sublist"
begin

section \<open>Python values, keyword dictionaries and errors\<close>

text \<open>
  \<^verbatim>\<open>instructor.Mode\<close> is imported by \<^verbatim>\<open>instructor/__init__.py\<close> from \<^verbatim>\<open>instructor/mode.py\<close>.
  The dispatcher names three of its members; every other member is \<open>OtherMode\<close> with its
  name. Members of a plain \<^verbatim>\<open>enum.Enum\<close> are all true in a boolean context.
\<close>

datatype Mode = TOOLS | JSON | ANTHROPIC_TOOLS | OtherMode string

text \<open>
  The values that travel through \<^verbatim>\<open>**kwargs\<close>: \<open>PObj\<close> is an opaque object (a cache
  adapter, a credentials object) of a class that defines neither \<^verbatim>\<open>__bool__\<close> nor
  \<^verbatim>\<open>__len__\<close>.
\<close>

datatype pyval = PNone | PBool bool | PInt int | PStr string | PMode Mode | PObj string

fun truthy :: "pyval \<Rightarrow> bool" where
  "truthy PNone = False"
| "truthy (PBool b) = b"
| "truthy (PInt i) = (i \<noteq> 0)"
| "truthy (PStr s) = (s \<noteq> [])"
| "truthy (PMode m) = True"
| "truthy (PObj x) = True"

type_synonym kwargs = "string \<rightharpoonup> pyval"

text \<open>\<^verbatim>\<open>kwargs.pop(k, d)\<close>: the value and the dictionary without the key.\<close>

definition pop :: "string \<Rightarrow> pyval \<Rightarrow> kwargs \<Rightarrow> pyval \<times> kwargs" where
  "pop k d kw = (case kw k of None \<Rightarrow> (d, kw) | Some v \<Rightarrow> (v, kw(k := None)))"

text \<open>\<^verbatim>\<open>kwargs.get(k)\<close>: the dictionary is left as it is.\<close>

definition dict_get :: "string \<Rightarrow> kwargs \<Rightarrow> pyval" where
  "dict_get k kw = (case kw k of None \<Rightarrow> PNone | Some v \<Rightarrow> v)"

text \<open>
  The exceptions that leave \<^verbatim>\<open>from_provider\<close>, with their message. \<open>TypeError\<close> is the
  interpreter's "got multiple values for keyword argument", with the keyword.
\<close>

datatype error =
    ConfigurationError string
  | ImportError string
  | ValueError string
  | TypeError string

section \<open>The environment of a call and what a call does\<close>

text \<open>
  \<open>installed env m\<close>: module \<open>m\<close> is importable (\<^verbatim>\<open>importlib.util.find_spec(m)\<close> finds it);
  \<open>environ env\<close> is \<^verbatim>\<open>os.environ\<close>. The standard library (\<^verbatim>\<open>os\<close>, \<^verbatim>\<open>warnings\<close>) is always there
  and is not listed.
\<close>

record env =
  installed :: "string \<Rightarrow> bool"
  environ :: "string \<rightharpoonup> string"

definition environ_get :: "env \<Rightarrow> string \<Rightarrow> pyval" where
  "environ_get e name = (case environ e name of None \<Rightarrow> PNone | Some s \<Rightarrow> PStr s)"

definition environ_get_default :: "env \<Rightarrow> string \<Rightarrow> string \<Rightarrow> pyval" where
  "environ_get_default e name d = (case environ e name of None \<Rightarrow> PStr d | Some s \<Rightarrow> PStr s)"

text \<open>
  What \<^verbatim>\<open>instructor/__init__.py\<close> exports: \<^verbatim>\<open>from_openai\<close> always, every other adapter
  factory only when \<^verbatim>\<open>find_spec\<close> finds its package.
\<close>

definition instructor_exports :: "env \<Rightarrow> string \<Rightarrow> bool" where
  "instructor_exports e name =
    (if name = ''from_openai'' then True
     else if name = ''from_anthropic'' then installed e ''anthropic''
     else if name = ''from_gemini'' then installed e ''google'' \<and> installed e ''google.generativeai''
     else if name = ''from_fireworks'' then installed e ''fireworks''
     else if name = ''from_cerebras'' then installed e ''cerebras''
     else if name = ''from_groq'' then installed e ''groq''
     else if name = ''from_mistral'' then installed e ''mistralai''
     else if name = ''from_cohere'' then installed e ''cohere''
     else if name = ''from_vertexai'' then installed e ''vertexai'' \<and> installed e ''jsonref''
     else if name = ''from_bedrock'' then installed e ''boto3''
     else if name = ''from_writer'' then installed e ''writerai''
     else if name = ''from_xai'' then installed e ''xai_sdk''
     else if name = ''from_perplexity'' then installed e ''openai''
     else if name = ''from_genai'' then installed e ''google'' \<and> installed e ''google.genai''
     else False)"

text \<open>\<^verbatim>\<open>import m\<close> / \<^verbatim>\<open>from m import ...\<close>, and \<^verbatim>\<open>from instructor import f\<close>.\<close>

datatype import_stmt = Module string | FromInstructor string

fun import_ok :: "env \<Rightarrow> import_stmt \<Rightarrow> bool" where
  "import_ok e (Module m) = installed e m"
| "import_ok e (FromInstructor f) = instructor_exports e f"

fun import_name :: "import_stmt \<Rightarrow> string" where
  "import_name (Module m) = m"
| "import_name (FromInstructor f) = f"

text \<open>
  The native SDK client that a branch constructs (class, positional and keyword
  arguments) and the call it hands to the adapter factory. The SDK constructors and the
  adapter factories are outside this module: a run that reaches the factory ends with
  the call.
\<close>

record native_client =
  sdk_class :: string
  sdk_args :: "pyval list"
  sdk_kwargs :: kwargs

record adapter_call =
  factory :: string
  native :: native_client
  call_kwargs :: kwargs

datatype event =
    Import import_stmt
  | EnvGet string
  | DeprecationWarning string
  | NewClient native_client

text \<open>A run: what happened, in order, and the exception raised or the value.\<close>

type_synonym 'a run = "event list \<times> (error + 'a)"

definition raise :: "error \<Rightarrow> 'a run" where
  "raise e = ([], Inl e)"

definition emit :: "event \<Rightarrow> 'a run \<Rightarrow> 'a run" where
  "emit ev r = (ev # fst r, snd r)"

definition bind_run :: "'a run \<Rightarrow> ('a \<Rightarrow> 'b run) \<Rightarrow> 'b run" where
  "bind_run r k =
    (case snd r of
       Inl e \<Rightarrow> (fst r, Inl e)
     | Inr x \<Rightarrow> (fst r @ fst (k x), snd (k x)))"

definition then_run :: "unit run \<Rightarrow> 'a run \<Rightarrow> 'a run" where
  "then_run r k = bind_run r (\<lambda>_. k)"

text \<open>
  An import that fails raises the interpreter's \<^verbatim>\<open>ImportError\<close>; every import of the
  dispatcher sits in a \<^verbatim>\<open>try\<close> whose handler replaces it.
\<close>

definition py_import :: "env \<Rightarrow> import_stmt \<Rightarrow> unit run" where
  "py_import e i =
    ([Import i], if import_ok e i then Inr () else Inl (ImportError (import_name i)))"

text \<open>\<^verbatim>\<open>try: body except ImportError: raise handler from None\<close>\<close>

definition except_ImportError :: "'a run \<Rightarrow> error \<Rightarrow> 'a run" where
  "except_ImportError body handler =
    (case snd body of
       Inl (ImportError m) \<Rightarrow> (fst body, Inl handler)
     | _ \<Rightarrow> body)"

text \<open>
  A call \<^verbatim>\<open>f(k1=v1, ..., **kw)\<close>: a keyword given by name and again in \<^verbatim>\<open>**kw\<close> is a
  \<^verbatim>\<open>TypeError\<close>; otherwise the callee receives all of them.
\<close>

definition py_keywords :: "(string \<times> pyval) list \<Rightarrow> kwargs \<Rightarrow> error + kwargs" where
  "py_keywords named kw =
    (case filter (\<lambda>k. kw k \<noteq> None) (map fst named) of
       [] \<Rightarrow> Inr (kw ++ map_of named)
     | k # ks \<Rightarrow> Inl (TypeError k))"

definition new_client ::
  "string \<Rightarrow> pyval list \<Rightarrow> (string \<times> pyval) list \<Rightarrow> kwargs \<Rightarrow> native_client run" where
  "new_client cls args named kw =
    (case py_keywords named kw of
       Inl e \<Rightarrow> raise e
     | Inr kws \<Rightarrow>
         (let c = \<lparr>sdk_class = cls, sdk_args = args, sdk_kwargs = kws\<rparr>
          in ([NewClient c], Inr c)))"

definition call_adapter ::
  "string \<Rightarrow> native_client \<Rightarrow> (string \<times> pyval) list \<Rightarrow> kwargs \<Rightarrow> adapter_call run" where
  "call_adapter f c named kw =
    (case py_keywords named kw of
       Inl e \<Rightarrow> raise e
     | Inr kws \<Rightarrow> ([], Inr \<lparr>factory = f, native = c, call_kwargs = kws\<rparr>))"

text \<open>\<^verbatim>\<open>mode if mode else default\<close>\<close>

definition mode_or :: "Mode option \<Rightarrow> Mode \<Rightarrow> pyval" where
  "mode_or mode d = (case mode of None \<Rightarrow> PMode d | Some m \<Rightarrow> PMode m)"

section \<open>Strings\<close>

text \<open>
  \<^verbatim>\<open>model.split("/", 1)\<close>: the whole string when there is no separator, otherwise the
  part before the first separator and everything after it.
\<close>

definition split_slash_1 :: "string \<Rightarrow> string list" where
  "split_slash_1 s =
    (case dropWhile (\<lambda>c. c \<noteq> CHR ''/'') s of
       [] \<Rightarrow> [s]
     | sep # rest \<Rightarrow> [takeWhile (\<lambda>c. c \<noteq> CHR ''/'') s, rest])"

text \<open>
  \<^verbatim>\<open>str.lower()\<close> on code points below 256: the letters A-Z and the capital letters of
  Latin-1 (U+00C0 to U+00DE without the multiplication sign) move up by 32, which sets
  bit 5.
\<close>

definition py_lower_char :: "char \<Rightarrow> char" where
  "py_lower_char c =
    (let n = (of_char c :: nat) in
     if (65 \<le> n \<and> n \<le> 90) \<or> (192 \<le> n \<and> n \<le> 222 \<and> n \<noteq> 215)
     then (case c of Char b0 b1 b2 b3 b4 b5 b6 b7 \<Rightarrow> Char b0 b1 b2 b3 b4 True b6 b7)
     else c)"

definition lower :: "string \<Rightarrow> string" where
  "lower s = map py_lower_char s"

text \<open>\<^verbatim>\<open>sub in s\<close> on strings: \<open>sub\<close> starts at some position of \<open>s\<close>.\<close>

fun str_contains :: "string \<Rightarrow> string \<Rightarrow> bool" where
  "str_contains [] sub = (sub = [])"
| "str_contains (c # cs) sub = (prefix sub (c # cs) \<or> str_contains cs sub)"

text \<open>
  \<^verbatim>\<open>str(xs)\<close> of a list of strings. \<open>py_repr_str\<close> is \<^verbatim>\<open>repr\<close> on strings of printable ASCII
  with no quote and no backslash, which is what \<open>supported_providers\<close> holds.
\<close>

definition py_repr_str :: "string \<Rightarrow> string" where
  "py_repr_str s = [CHR 0x27] @ s @ [CHR 0x27]"

fun join_comma :: "string list \<Rightarrow> string" where
  "join_comma [] = []"
| "join_comma [x] = x"
| "join_comma (x # y # ys) = x @ '', '' @ join_comma (y # ys)"

definition py_str_list :: "string list \<Rightarrow> string" where
  "py_str_list xs = ''['' @ join_comma (map py_repr_str xs) @ '']''"

section \<open>The provider branches of \<^verbatim>\<open>from_provider\<close>\<close>

text \<open>
  Each branch of the \<^verbatim>\<open>if provider == ...\<close> chain is one definition, in the order of
  the source. All take the environment, \<^verbatim>\<open>async_client\<close>, \<^verbatim>\<open>mode\<close>, the model name and
  the keyword dictionary (with \<^verbatim>\<open>cache\<close> already stored in it).
\<close>

definition supported_providers :: "string list" where
  "supported_providers =
    [''openai'', ''azure_openai'', ''anthropic'', ''google'', ''generative-ai'', ''vertexai'',
     ''mistral'', ''cohere'', ''perplexity'', ''groq'', ''writer'', ''bedrock'', ''cerebras'',
     ''fireworks'', ''ollama'', ''xai'']"

definition provider_openai ::
  "env \<Rightarrow> bool \<Rightarrow> Mode option \<Rightarrow> string \<Rightarrow> kwargs \<Rightarrow> adapter_call run" where
  "provider_openai e async_client mode model_name kwargs =
    except_ImportError
      (then_run (py_import e (Module ''openai''))
      (then_run (py_import e (FromInstructor ''from_openai''))
      (bind_run
        (new_client (if async_client then ''openai.AsyncOpenAI'' else ''openai.OpenAI'')
           [] [] Map.empty)
        (\<lambda>client. call_adapter ''from_openai'' client
           [(''model'', PStr model_name), (''mode'', mode_or mode TOOLS)] kwargs))))
      (ConfigurationError
        ''The openai package is required to use the OpenAI provider. Install it with `pip install openai`.'')"

definition provider_azure_openai ::
  "env \<Rightarrow> bool \<Rightarrow> Mode option \<Rightarrow> string \<Rightarrow> kwargs \<Rightarrow> adapter_call run" where
  "provider_azure_openai e async_client mode model_name kwargs =
    except_ImportError
      (then_run (py_import e (Module ''openai''))
      (then_run (py_import e (FromInstructor ''from_openai''))
      (emit (EnvGet ''AZURE_OPENAI_API_KEY'')
      (let (api_key, kwargs) = pop ''api_key'' (environ_get e ''AZURE_OPENAI_API_KEY'') kwargs in
       emit (EnvGet ''AZURE_OPENAI_ENDPOINT'')
      (let (azure_endpoint, kwargs) =
             pop ''azure_endpoint'' (environ_get e ''AZURE_OPENAI_ENDPOINT'') kwargs;
           (api_version, kwargs) = pop ''api_version'' (PStr ''2024-02-01'') kwargs
       in
       if \<not> truthy api_key then
         raise (ConfigurationError
           ''AZURE_OPENAI_API_KEY is not set. Set it with `export AZURE_OPENAI_API_KEY=<your-api-key>` or pass it as kwarg api_key=<your-api-key>'')
       else if \<not> truthy azure_endpoint then
         raise (ConfigurationError
           ''AZURE_OPENAI_ENDPOINT is not set. Set it with `export AZURE_OPENAI_ENDPOINT=<your-endpoint>` or pass it as kwarg azure_endpoint=<your-endpoint>'')
       else
         bind_run
           (new_client (if async_client then ''openai.AsyncAzureOpenAI'' else ''openai.AzureOpenAI'')
              []
              [(''api_key'', api_key), (''api_version'', api_version),
               (''azure_endpoint'', azure_endpoint)]
              Map.empty)
           (\<lambda>client. call_adapter ''from_openai'' client
              [(''model'', PStr model_name), (''mode'', mode_or mode TOOLS)] kwargs))))))
      (ConfigurationError
        ''The openai package is required to use the Azure OpenAI provider. Install it with `pip install openai`.'')"

definition provider_anthropic ::
  "env \<Rightarrow> bool \<Rightarrow> Mode option \<Rightarrow> string \<Rightarrow> kwargs \<Rightarrow> adapter_call run" where
  "provider_anthropic e async_client mode model_name kwargs =
    except_ImportError
      (then_run (py_import e (Module ''anthropic''))
      (then_run (py_import e (FromInstructor ''from_anthropic''))
      (bind_run
        (new_client (if async_client then ''anthropic.AsyncAnthropic'' else ''anthropic.Anthropic'')
           [] [] Map.empty)
        (\<lambda>client.
           let (max_tokens, kwargs) = pop ''max_tokens'' (PInt 4096) kwargs in
           call_adapter ''from_anthropic'' client
             [(''model'', PStr model_name), (''mode'', mode_or mode ANTHROPIC_TOOLS),
              (''max_tokens'', max_tokens)] kwargs))))
      (ImportError
        ''The anthropic package is required to use the Anthropic provider. Install it with `pip install anthropic`.'')"

text \<open>
  The loop of the google branch that moves the client options out of \<^verbatim>\<open>kwargs\<close>:
  \<^verbatim>\<open>for key in [...]: if key in kwargs: client_kwargs[key] = kwargs.pop(key)\<close>
\<close>

fun extract_client_kwargs :: "string list \<Rightarrow> kwargs \<Rightarrow> kwargs \<Rightarrow> kwargs \<times> kwargs" where
  "extract_client_kwargs [] client_kwargs kwargs = (client_kwargs, kwargs)"
| "extract_client_kwargs (key # keys) client_kwargs kwargs =
    (if kwargs key \<noteq> None
     then extract_client_kwargs keys (client_kwargs(key := kwargs key)) (kwargs(key := None))
     else extract_client_kwargs keys client_kwargs kwargs)"

definition provider_google ::
  "env \<Rightarrow> bool \<Rightarrow> Mode option \<Rightarrow> string \<Rightarrow> kwargs \<Rightarrow> adapter_call run" where
  "provider_google e async_client mode model_name kwargs =
    except_ImportError
      (then_run (py_import e (Module ''google.genai''))
      (then_run (py_import e (FromInstructor ''from_genai''))
      (let (vertexai_flag, kwargs) = pop ''vertexai'' (PBool False) kwargs in
       emit (EnvGet ''GOOGLE_API_KEY'')
      (let (api_key, kwargs) = pop ''api_key'' (environ_get e ''GOOGLE_API_KEY'') kwargs;
           (client_kwargs, kwargs) =
             extract_client_kwargs
               [''debug_config'', ''http_options'', ''credentials'', ''project'', ''location'']
               Map.empty kwargs
       in
       bind_run
         (new_client ''google.genai.Client'' []
            [(''vertexai'', vertexai_flag), (''api_key'', api_key)] client_kwargs)
         (\<lambda>client.
            if async_client then
              call_adapter ''from_genai'' client
                [(''use_async'', PBool True), (''model'', PStr model_name)] kwargs
            else
              call_adapter ''from_genai'' client [(''model'', PStr model_name)] kwargs)))))
      (ImportError
        ''The google-genai package is required to use the Google provider. Install it with `pip install google-genai`.'')"

definition provider_mistral ::
  "env \<Rightarrow> bool \<Rightarrow> Mode option \<Rightarrow> string \<Rightarrow> kwargs \<Rightarrow> adapter_call run" where
  "provider_mistral e async_client mode model_name kwargs =
    except_ImportError
      (then_run (py_import e (Module ''mistralai''))
      (then_run (py_import e (FromInstructor ''from_mistral''))
      (emit (EnvGet ''MISTRAL_API_KEY'')
      (if truthy (environ_get e ''MISTRAL_API_KEY'') then
         emit (EnvGet ''MISTRAL_API_KEY'')
         (bind_run
           (new_client ''mistralai.Mistral'' []
              [(''api_key'', environ_get e ''MISTRAL_API_KEY'')] Map.empty)
           (\<lambda>client.
              if async_client then
                call_adapter ''from_mistral'' client
                  [(''model'', PStr model_name), (''use_async'', PBool True)] kwargs
              else
                call_adapter ''from_mistral'' client [(''model'', PStr model_name)] kwargs))
       else
         raise (ValueError
           ''MISTRAL_API_KEY is not set. Set it with `export MISTRAL_API_KEY=<your-api-key>`.'')))))
      (ImportError
        ''The mistralai package is required to use the Mistral provider. Install it with `pip install mistralai`.'')"

definition provider_cohere ::
  "env \<Rightarrow> bool \<Rightarrow> Mode option \<Rightarrow> string \<Rightarrow> kwargs \<Rightarrow> adapter_call run" where
  "provider_cohere e async_client mode model_name kwargs =
    except_ImportError
      (then_run (py_import e (Module ''cohere''))
      (then_run (py_import e (FromInstructor ''from_cohere''))
      (bind_run
        (new_client (if async_client then ''cohere.AsyncClient'' else ''cohere.Client'')
           [] [] Map.empty)
        (\<lambda>client. call_adapter ''from_cohere'' client [] kwargs))))
      (ImportError
        ''The cohere package is required to use the Cohere provider. Install it with `pip install cohere`.'')"

definition provider_perplexity ::
  "env \<Rightarrow> bool \<Rightarrow> Mode option \<Rightarrow> string \<Rightarrow> kwargs \<Rightarrow> adapter_call run" where
  "provider_perplexity e async_client mode model_name kwargs =
    except_ImportError
      (then_run (py_import e (Module ''openai''))
      (then_run (py_import e (FromInstructor ''from_perplexity''))
      (emit (EnvGet ''PERPLEXITY_API_KEY'')
      (bind_run
        (if truthy (environ_get e ''PERPLEXITY_API_KEY'') then
           emit (EnvGet ''PERPLEXITY_API_KEY'') ([], Inr (environ_get e ''PERPLEXITY_API_KEY''))
         else if truthy (dict_get ''api_key'' kwargs) then
           ([], Inr (dict_get ''api_key'' kwargs))
         else
           raise (ValueError
             ''PERPLEXITY_API_KEY is not set. Set it with `export PERPLEXITY_API_KEY=<your-api-key>` or pass it as a kwarg api_key=<your-api-key>''))
        (\<lambda>api_key.
           bind_run
             (new_client (if async_client then ''openai.AsyncOpenAI'' else ''openai.OpenAI'') []
                [(''api_key'', api_key), (''base_url'', PStr ''https://api.perplexity.ai'')]
                Map.empty)
             (\<lambda>client.
                call_adapter ''from_perplexity'' client [(''model'', PStr model_name)] kwargs))))))
      (ImportError
        ''The openai package is required to use the Perplexity provider. Install it with `pip install openai`.'')"

definition provider_groq ::
  "env \<Rightarrow> bool \<Rightarrow> Mode option \<Rightarrow> string \<Rightarrow> kwargs \<Rightarrow> adapter_call run" where
  "provider_groq e async_client mode model_name kwargs =
    except_ImportError
      (then_run (py_import e (Module ''groq''))
      (then_run (py_import e (FromInstructor ''from_groq''))
      (bind_run
        (new_client (if async_client then ''groq.AsyncGroq'' else ''groq.Groq'') [] [] Map.empty)
        (\<lambda>client. call_adapter ''from_groq'' client [(''model'', PStr model_name)] kwargs))))
      (ImportError
        ''The groq package is required to use the Groq provider. Install it with `pip install groq`.'')"

definition provider_writer ::
  "env \<Rightarrow> bool \<Rightarrow> Mode option \<Rightarrow> string \<Rightarrow> kwargs \<Rightarrow> adapter_call run" where
  "provider_writer e async_client mode model_name kwargs =
    except_ImportError
      (then_run (py_import e (Module ''writerai''))
      (then_run (py_import e (FromInstructor ''from_writer''))
      (bind_run
        (new_client (if async_client then ''writerai.AsyncWriter'' else ''writerai.Writer'')
           [] [] Map.empty)
        (\<lambda>client. call_adapter ''from_writer'' client [(''model'', PStr model_name)] kwargs))))
      (ImportError
        ''The writerai package is required to use the Writer provider. Install it with `pip install writer-sdk`.'')"

definition provider_bedrock ::
  "env \<Rightarrow> bool \<Rightarrow> Mode option \<Rightarrow> string \<Rightarrow> kwargs \<Rightarrow> adapter_call run" where
  "provider_bedrock e async_client mode model_name kwargs =
    except_ImportError
      (then_run (py_import e (Module ''boto3''))
      (then_run (py_import e (FromInstructor ''from_bedrock''))
      (bind_run
        (new_client ''boto3.client'' [PStr ''bedrock-runtime''] [] Map.empty)
        (\<lambda>client. call_adapter ''from_bedrock'' client [] kwargs))))
      (ImportError
        ''The boto3 package is required to use the AWS Bedrock provider. Install it with `pip install boto3`.'')"

definition provider_cerebras ::
  "env \<Rightarrow> bool \<Rightarrow> Mode option \<Rightarrow> string \<Rightarrow> kwargs \<Rightarrow> adapter_call run" where
  "provider_cerebras e async_client mode model_name kwargs =
    except_ImportError
      (then_run (py_import e (Module ''cerebras.cloud.sdk''))
      (then_run (py_import e (FromInstructor ''from_cerebras''))
      (bind_run
        (new_client
           (if async_client then ''cerebras.cloud.sdk.AsyncCerebras''
            else ''cerebras.cloud.sdk.Cerebras'')
           [] [] Map.empty)
        (\<lambda>client. call_adapter ''from_cerebras'' client [(''model'', PStr model_name)] kwargs))))
      (ImportError
        ''The cerebras package is required to use the Cerebras provider. Install it with `pip install cerebras`.'')"

definition provider_fireworks ::
  "env \<Rightarrow> bool \<Rightarrow> Mode option \<Rightarrow> string \<Rightarrow> kwargs \<Rightarrow> adapter_call run" where
  "provider_fireworks e async_client mode model_name kwargs =
    except_ImportError
      (then_run (py_import e (Module ''fireworks.client''))
      (then_run (py_import e (FromInstructor ''from_fireworks''))
      (bind_run
        (new_client
           (if async_client then ''fireworks.client.AsyncFireworks''
            else ''fireworks.client.Fireworks'')
           [] [] Map.empty)
        (\<lambda>client. call_adapter ''from_fireworks'' client [(''model'', PStr model_name)] kwargs))))
      (ImportError
        ''The fireworks-ai package is required to use the Fireworks provider. Install it with `pip install fireworks-ai`.'')"

definition provider_vertexai ::
  "env \<Rightarrow> bool \<Rightarrow> Mode option \<Rightarrow> string \<Rightarrow> kwargs \<Rightarrow> adapter_call run" where
  "provider_vertexai e async_client mode model_name kwargs =
    emit (DeprecationWarning
      ''The 'vertexai' provider is deprecated. Use 'google' provider with vertexai=True instead. Example: instructor.from_provider('google/gemini-pro', vertexai=True)'')
    (except_ImportError
      (then_run (py_import e (Module ''google.genai''))
      (then_run (py_import e (FromInstructor ''from_genai''))
      (emit (EnvGet ''GOOGLE_CLOUD_PROJECT'')
      (let (project, kwargs) = pop ''project'' (environ_get e ''GOOGLE_CLOUD_PROJECT'') kwargs in
       emit (EnvGet ''GOOGLE_CLOUD_LOCATION'')
      (let (location, kwargs) =
             pop ''location'' (environ_get_default e ''GOOGLE_CLOUD_LOCATION'' ''us-central1'') kwargs
       in
       if \<not> truthy project then
         raise (ValueError
           ''Project ID is required for Vertex AI. Set it with `export GOOGLE_CLOUD_PROJECT=<your-project-id>` or pass it as kwarg project=<your-project-id>'')
       else
         bind_run
           (new_client ''google.genai.Client'' []
              [(''vertexai'', PBool True), (''project'', project), (''location'', location)]
              kwargs)
           (\<lambda>client.
              let kwargs = kwargs(''model'' \<mapsto> PStr model_name) in
              if async_client then
                call_adapter ''from_genai'' client [(''use_async'', PBool True)] kwargs
              else
                call_adapter ''from_genai'' client [] kwargs))))))
      (ImportError
        ''The google-genai package is required to use the VertexAI provider. Install it with `pip install google-genai`.''))"

text \<open>\<^verbatim>\<open>from google import genai\<close> succeeds when the submodule \<^verbatim>\<open>google.genai\<close> is importable.\<close>

definition provider_generative_ai ::
  "env \<Rightarrow> bool \<Rightarrow> Mode option \<Rightarrow> string \<Rightarrow> kwargs \<Rightarrow> adapter_call run" where
  "provider_generative_ai e async_client mode model_name kwargs =
    emit (DeprecationWarning
      ''The 'generative-ai' provider is deprecated. Use 'google' provider instead. Example: instructor.from_provider('google/gemini-pro')'')
    (except_ImportError
      (then_run (py_import e (Module ''google.genai''))
      (then_run (py_import e (FromInstructor ''from_genai''))
      (emit (EnvGet ''GOOGLE_API_KEY'')
      (let (api_key, kwargs) = pop ''api_key'' (environ_get e ''GOOGLE_API_KEY'') kwargs in
       bind_run
         (new_client ''google.genai.Client'' []
            [(''vertexai'', PBool False), (''api_key'', api_key)] Map.empty)
         (\<lambda>client.
            if async_client then
              call_adapter ''from_genai'' client
                [(''use_async'', PBool True), (''model'', PStr model_name)] kwargs
            else
              call_adapter ''from_genai'' client [(''model'', PStr model_name)] kwargs)))))
      (ImportError
        ''The google-genai package is required to use the Google GenAI provider. Install it with `pip install google-genai`.''))"

text \<open>The model families of the ollama branch that support function calling.\<close>

definition tool_capable_models :: "string list" where
  "tool_capable_models =
    [''llama3.1'', ''llama3.2'', ''llama4'', ''mistral-nemo'', ''firefunction-v2'',
     ''command-r-plus'', ''qwen2.5'', ''qwen2.5-coder'', ''qwen3'', ''devstral'']"

definition supports_tools :: "string \<Rightarrow> bool" where
  "supports_tools model_name =
    list_ex (\<lambda>capable_model. str_contains (lower model_name) capable_model) tool_capable_models"

definition provider_ollama ::
  "env \<Rightarrow> bool \<Rightarrow> Mode option \<Rightarrow> string \<Rightarrow> kwargs \<Rightarrow> adapter_call run" where
  "provider_ollama e async_client mode model_name kwargs =
    except_ImportError
      (then_run (py_import e (Module ''openai''))
      (then_run (py_import e (FromInstructor ''from_openai''))
      (let (base_url, kwargs) = pop ''base_url'' (PStr ''http://localhost:11434/v1'') kwargs;
           (api_key, kwargs) = pop ''api_key'' (PStr ''ollama'') kwargs
       in
       bind_run
         (new_client (if async_client then ''openai.AsyncOpenAI'' else ''openai.OpenAI'') []
            [(''base_url'', base_url), (''api_key'', api_key)] Map.empty)
         (\<lambda>client.
            let default_mode = (if supports_tools model_name then TOOLS else JSON) in
            call_adapter ''from_openai'' client
              [(''model'', PStr model_name), (''mode'', mode_or mode default_mode)] kwargs))))
      (ConfigurationError
        ''The openai package is required to use the Ollama provider. Install it with `pip install openai`.'')"

definition provider_xai ::
  "env \<Rightarrow> bool \<Rightarrow> Mode option \<Rightarrow> string \<Rightarrow> kwargs \<Rightarrow> adapter_call run" where
  "provider_xai e async_client mode model_name kwargs =
    except_ImportError
      (then_run (py_import e (Module ''xai_sdk.sync.client''))
      (then_run (py_import e (Module ''xai_sdk.aio.client''))
      (then_run (py_import e (FromInstructor ''from_xai''))
      (bind_run
        (new_client
           (if async_client then ''xai_sdk.aio.client.Client'' else ''xai_sdk.sync.client.Client'')
           [] [] Map.empty)
        (\<lambda>client. call_adapter ''from_xai'' client
           [(''mode'', mode_or mode JSON), (''model'', PStr model_name)] kwargs)))))
      (ConfigurationError
        ''The xai-sdk package is required to use the xAI provider. Install it with `pip install xai-sdk`.'')"

section \<open>\<^verbatim>\<open>from_provider\<close>\<close>

definition parse_error_message :: string where
  \<open>parse_error_message =
    ''Model string must be in format "provider/model-name" (e.g. "openai/gpt-4" or "anthropic/claude-3-sonnet")''\<close>

definition unsupported_message :: "string \<Rightarrow> string" where
  "unsupported_message provider =
    ''Unsupported provider: '' @ provider @ ''. Supported providers are: ''
      @ py_str_list supported_providers"

text \<open>
  The dispatch on the provider token, after the split. Python binds the keywords
  \<^verbatim>\<open>model\<close>, \<^verbatim>\<open>async_client\<close>, \<^verbatim>\<open>cache\<close> and \<^verbatim>\<open>mode\<close> to the named parameters, so
  \<^verbatim>\<open>**kwargs\<close> never holds them when the body starts (\<open>wf_kwargs\<close>).
\<close>

definition wf_kwargs :: "kwargs \<Rightarrow> bool" where
  "wf_kwargs kw =
    (kw ''model'' = None \<and> kw ''async_client'' = None \<and> kw ''cache'' = None \<and> kw ''mode'' = None)"

definition dispatch ::
  "env \<Rightarrow> string \<Rightarrow> bool \<Rightarrow> Mode option \<Rightarrow> string \<Rightarrow> kwargs \<Rightarrow> adapter_call run" where
  "dispatch e provider async_client mode model_name kwargs =
    (if provider = ''openai'' then provider_openai e async_client mode model_name kwargs
     else if provider = ''azure_openai'' then
       provider_azure_openai e async_client mode model_name kwargs
     else if provider = ''anthropic'' then provider_anthropic e async_client mode model_name kwargs
     else if provider = ''google'' then provider_google e async_client mode model_name kwargs
     else if provider = ''mistral'' then provider_mistral e async_client mode model_name kwargs
     else if provider = ''cohere'' then provider_cohere e async_client mode model_name kwargs
     else if provider = ''perplexity'' then
       provider_perplexity e async_client mode model_name kwargs
     else if provider = ''groq'' then provider_groq e async_client mode model_name kwargs
     else if provider = ''writer'' then provider_writer e async_client mode model_name kwargs
     else if provider = ''bedrock'' then provider_bedrock e async_client mode model_name kwargs
     else if provider = ''cerebras'' then provider_cerebras e async_client mode model_name kwargs
     else if provider = ''fireworks'' then provider_fireworks e async_client mode model_name kwargs
     else if provider = ''vertexai'' then provider_vertexai e async_client mode model_name kwargs
     else if provider = ''generative-ai'' then
       provider_generative_ai e async_client mode model_name kwargs
     else if provider = ''ollama'' then provider_ollama e async_client mode model_name kwargs
     else if provider = ''xai'' then provider_xai e async_client mode model_name kwargs
     else raise (ConfigurationError (unsupported_message provider)))"

text \<open>
  \<^verbatim>\<open>from_provider(model, async_client, cache, mode, **kwargs)\<close>: the cache goes into the
  keyword dictionary, the identifier is split, and unpacking anything but two parts is
  the \<^verbatim>\<open>ValueError\<close> that the handler turns into a \<^verbatim>\<open>ConfigurationError\<close>.
\<close>

definition from_provider ::
  "env \<Rightarrow> string \<Rightarrow> bool \<Rightarrow> pyval \<Rightarrow> Mode option \<Rightarrow> kwargs \<Rightarrow> adapter_call run" where
  "from_provider e model async_client cache mode kwargs0 =
    (let kwargs = (if cache \<noteq> PNone then kwargs0(''cache'' \<mapsto> cache) else kwargs0) in
     case split_slash_1 model of
       [provider, model_name] \<Rightarrow> dispatch e provider async_client mode model_name kwargs
     | _ \<Rightarrow> raise (ConfigurationError parse_error_message))"

section \<open>Concrete environments\<close>

text \<open>An environment with the given modules installed and the given variables set.\<close>

definition env_with :: "string list \<Rightarrow> (string \<times> string) list \<Rightarrow> env" where
  "env_with mods vars = \<lparr>installed = (\<lambda>m. m \<in> set mods), environ = map_of vars\<rparr>"

section \<open>Observations on runs\<close>

text \<open>\<open>raises_only Q r\<close>: if the run \<open>r\<close> ends in an exception, the exception satisfies \<open>Q\<close>.\<close>

definition raises_only :: "(error \<Rightarrow> bool) \<Rightarrow> 'a run \<Rightarrow> bool" where
  "raises_only Q r = (case snd r of Inl e \<Rightarrow> Q e | Inr x \<Rightarrow> True)"

abbreviation (input) not_parse_error :: "error \<Rightarrow> bool" where
  "not_parse_error \<equiv> \<lambda>e. e \<noteq> ConfigurationError parse_error_message"

text \<open>The deprecation warnings of a run, in order.\<close>

fun warnings_of :: "event list \<Rightarrow> string list" where
  "warnings_of [] = []"
| "warnings_of (DeprecationWarning w # es) = w # warnings_of es"
| "warnings_of (Import i # es) = warnings_of es"
| "warnings_of (EnvGet v # es) = warnings_of es"
| "warnings_of (NewClient c # es) = warnings_of es"

text \<open>The message of the warning that the \<^verbatim>\<open>vertexai\<close> branch emits.\<close>

definition vertexai_deprecation :: string where
  "vertexai_deprecation =
    ''The 'vertexai' provider is deprecated. Use 'google' provider with vertexai=True instead. Example: instructor.from_provider('google/gemini-pro', vertexai=True)''"

section \<open>Basic facts about the building blocks\<close>

lemma split_no_slash:
  assumes "CHR ''/'' \<notin> set s"
  shows "split_slash_1 s = [s]"
proof -
  from assms have "dropWhile (\<lambda>c. c \<noteq> CHR ''/'') s = []" by auto
  then show ?thesis by (simp add: split_slash_1_def del: dropWhile_eq_Nil_conv)
qed

lemma split_first_slash:
  assumes "CHR ''/'' \<notin> set p"
  shows "split_slash_1 (p @ CHR ''/'' # m) = [p, m]"
proof -
  have d: "dropWhile (\<lambda>c. c \<noteq> CHR ''/'') (p @ CHR ''/'' # m) = CHR ''/'' # m"
    using assms by (induction p) auto
  have t: "takeWhile (\<lambda>c. c \<noteq> CHR ''/'') (p @ CHR ''/'' # m) = p"
    using assms by (induction p) auto
  show ?thesis by (simp add: split_slash_1_def d t)
qed

lemma str_contains_sublist: "str_contains s sub = sublist sub s"
  by (induction s) (simp_all add: sublist_Cons_right)

lemma supports_tools_sublist:
  "supports_tools m = (\<exists>f\<in>set tool_capable_models. sublist f (lower m))"
  by (simp add: supports_tools_def list_ex_iff str_contains_sublist)

lemma from_provider_dispatch:
  "CHR ''/'' \<notin> set p \<Longrightarrow>
   from_provider e (p @ CHR ''/'' # m) a cache mode kw =
     dispatch e p a mode m (if cache \<noteq> PNone then kw(''cache'' \<mapsto> cache) else kw)"
  by (simp add: from_provider_def split_first_slash)

lemma pop_fst: "fst (pop k d kw) = (case kw k of None \<Rightarrow> d | Some v \<Rightarrow> v)"
  by (simp add: pop_def split: option.splits)

lemma pop_snd: "snd (pop k d kw) = kw(k := None)"
  by (auto simp add: pop_def split: option.splits)

lemma py_import_ok: "import_ok e i \<Longrightarrow> py_import e i = ([Import i], Inr ())"
  by (simp add: py_import_def)

lemma then_run_Inr: "then_run (es, Inr u) k = (es @ fst k, snd k)"
  by (simp add: then_run_def bind_run_def)

lemma then_run_Inl: "then_run (es, Inl x) k = (es, Inl x)"
  by (simp add: then_run_def bind_run_def)

lemma bind_run_Inr: "bind_run (es, Inr x) k = (es @ fst (k x), snd (k x))"
  by (simp add: bind_run_def)

lemma bind_run_Inl: "bind_run (es, Inl x) k = (es, Inl x)"
  by (simp add: bind_run_def)

lemma py_keywords_ok:
  assumes "\<forall>k\<in>set (map fst named). kw k = None"
  shows "py_keywords named kw = Inr (kw ++ map_of named)"
proof -
  from assms have "filter (\<lambda>k. kw k \<noteq> None) (map fst named) = []"
    by (simp add: filter_empty_conv)
  then show ?thesis by (simp add: py_keywords_def del: filter_False)
qed

lemma new_client_ok:
  "\<forall>k\<in>set (map fst named). kw k = None \<Longrightarrow>
   new_client cls args named kw =
     ([NewClient \<lparr>sdk_class = cls, sdk_args = args, sdk_kwargs = kw ++ map_of named\<rparr>],
      Inr \<lparr>sdk_class = cls, sdk_args = args, sdk_kwargs = kw ++ map_of named\<rparr>)"
  by (simp add: new_client_def py_keywords_ok Let_def del: set_map)

lemma call_adapter_ok:
  "\<forall>k\<in>set (map fst named). kw k = None \<Longrightarrow>
   call_adapter f c named kw =
     ([], Inr \<lparr>factory = f, native = c, call_kwargs = kw ++ map_of named\<rparr>)"
  by (simp add: call_adapter_def py_keywords_ok del: set_map)

lemma except_ImportError_Inr: "except_ImportError (es, Inr x) h = (es, Inr x)"
  by (simp add: except_ImportError_def)

lemmas run_simps = pop_fst pop_snd py_import_ok then_run_Inr then_run_Inl bind_run_Inr
  bind_run_Inl new_client_ok call_adapter_ok except_ImportError_Inr emit_def raise_def
  case_prod_beta mode_or_def instructor_exports_def

lemmas run_defs = raise_def emit_def bind_run_def then_run_def py_import_def
  except_ImportError_def py_keywords_def new_client_def call_adapter_def mode_or_def pop_def
  dict_get_def environ_get_def environ_get_default_def instructor_exports_def Let_def
  env_with_def

lemmas eval_defs = from_provider_def split_slash_1_def dispatch_def run_defs

section \<open>The ollama branch: default mode by model family\<close>

lemma dispatch_ollama: "dispatch e ''ollama'' = provider_ollama e"
  by (simp add: dispatch_def fun_eq_iff)

lemma provider_ollama_ok:
  assumes "installed e ''openai''" and "kw ''model'' = None" and "kw ''mode'' = None"
  shows "snd (provider_ollama e a None m kw) =
     Inr \<lparr>factory = ''from_openai'',
          native =
            \<lparr>sdk_class = (if a then ''openai.AsyncOpenAI'' else ''openai.OpenAI''),
             sdk_args = [],
             sdk_kwargs =
               map_of
                 [(''base_url'',
                   case kw ''base_url'' of
                     None \<Rightarrow> PStr ''http://localhost:11434/v1'' | Some v \<Rightarrow> v),
                  (''api_key'', case kw ''api_key'' of None \<Rightarrow> PStr ''ollama'' | Some v \<Rightarrow> v)]\<rparr>,
          call_kwargs =
            (kw(''base_url'' := None, ''api_key'' := None))
              ++ map_of [(''model'', PStr m),
                         (''mode'', PMode (if supports_tools m then TOOLS else JSON))]\<rparr>"
  using assms by (simp add: provider_ollama_def run_simps)

text \<open>
  Lower-casing a character in numbers: the code points 65 to 90 and 192 to 222 without
  215 move up by 32, every other code point below 256 stays.
\<close>

lemma py_lower_char_arith:
  "py_lower_char c =
    (if (65 \<le> (of_char c :: nat) \<and> (of_char c :: nat) \<le> 90)
        \<or> (192 \<le> (of_char c :: nat) \<and> (of_char c :: nat) \<le> 222 \<and> (of_char c :: nat) \<noteq> 215)
     then char_of ((of_char c :: nat) + 32) else c)"
proof (cases c)
  case (Char b0 b1 b2 b3 b4 b5 b6 b7)
  show ?thesis
    unfolding Char py_lower_char_def Let_def
    by (cases b0; cases b1; cases b2; cases b3; cases b4; cases b5; cases b6; cases b7)
      (simp_all add: char_of_def bit_numeral_simps bit_Suc_0_iff)
qed

lemma py_lower_char_fun:
  "py_lower_char =
    (\<lambda>c. if (65 \<le> (of_char c :: nat) \<and> (of_char c :: nat) \<le> 90)
        \<or> (192 \<le> (of_char c :: nat) \<and> (of_char c :: nat) \<le> 222 \<and> (of_char c :: nat) \<noteq> 215)
     then char_of ((of_char c :: nat) + 32) else c)"
  by (rule ext) (rule py_lower_char_arith)

lemma supports_tools_spelled_out:
  "supports_tools m =
    (\<exists>f\<in>set [''llama3.1'', ''llama3.2'', ''llama4'', ''mistral-nemo'', ''firefunction-v2'',
               ''command-r-plus'', ''qwen2.5'', ''qwen2.5-coder'', ''qwen3'', ''devstral''].
       sublist f
         (map (\<lambda>c. if (65 \<le> (of_char c :: nat) \<and> (of_char c :: nat) \<le> 90)
                      \<or> (192 \<le> (of_char c :: nat) \<and> (of_char c :: nat) \<le> 222
                          \<and> (of_char c :: nat) \<noteq> 215)
                   then char_of ((of_char c :: nat) + 32) else c) m))"
  unfolding supports_tools_sublist tool_capable_models_def lower_def py_lower_char_fun
  by (rule refl)

text \<open>
  Claim C6. With the \<^verbatim>\<open>openai\<close> package installed and no mode override, the call that
  \<^verbatim>\<open>from_provider("ollama/" + m)\<close> hands to \<^verbatim>\<open>from_openai\<close> carries the tool-calling mode
  exactly when one of the ten family names occurs as a contiguous substring of the model
  name with its capital letters lower-cased, and the plain-JSON mode otherwise. The
  family names and the lower-casing are written out in the statement.
\<close>

theorem ollama_default_mode:
  assumes "installed e ''openai''" and "wf_kwargs kwargs"
  shows "\<exists>c. snd (from_provider e (''ollama/'' @ m) a cache None kwargs) = Inr c
           \<and> factory c = ''from_openai''
           \<and> call_kwargs c ''model'' = Some (PStr m)
           \<and> call_kwargs c ''mode'' =
               Some (PMode
                 (if \<exists>f\<in>set [''llama3.1'', ''llama3.2'', ''llama4'', ''mistral-nemo'',
                               ''firefunction-v2'', ''command-r-plus'', ''qwen2.5'',
                               ''qwen2.5-coder'', ''qwen3'', ''devstral''].
                       sublist f
                         (map (\<lambda>c. if (65 \<le> (of_char c :: nat) \<and> (of_char c :: nat) \<le> 90)
                                      \<or> (192 \<le> (of_char c :: nat) \<and> (of_char c :: nat) \<le> 222
                                          \<and> (of_char c :: nat) \<noteq> 215)
                                   then char_of ((of_char c :: nat) + 32) else c) m)
                  then TOOLS else JSON))"
proof -
  let ?kw = "if cache \<noteq> PNone then kwargs(''cache'' \<mapsto> cache) else kwargs"
  have "from_provider e (''ollama'' @ CHR ''/'' # m) a cache None kwargs =
     dispatch e ''ollama'' a None m ?kw"
    by (rule from_provider_dispatch) simp
  then have run: "snd (from_provider e (''ollama/'' @ m) a cache None kwargs) =
     snd (provider_ollama e a None m ?kw)"
    by (simp add: dispatch_ollama)
  have "?kw ''model'' = None" and "?kw ''mode'' = None"
    using assms(2) by (simp_all add: wf_kwargs_def)
  from provider_ollama_ok [OF assms(1) this] run show ?thesis
    unfolding supports_tools_spelled_out [symmetric]
    by simp
qed

lemma supports_tools_examples:
  "supports_tools ''llama3.1''" "\<not> supports_tools ''some-unlisted-model''"
  "supports_tools ''LLAMA3.1:8B''" "supports_tools ''library/Qwen3:14b''"
  "supports_tools ''Devstral-Small''" "\<not> supports_tools ''LLAMA3''"
  by (simp_all add: supports_tools_def tool_capable_models_def lower_def py_lower_char_def)

text \<open>
  The two identifiers of the specification, and names that need the lower-casing
  (\<^verbatim>\<open>LLAMA3.1:8B\<close>, \<^verbatim>\<open>Devstral-Small\<close>), a family inside a longer name
  (\<^verbatim>\<open>library/Qwen3:14b\<close>) and a name that only starts like a family (\<^verbatim>\<open>LLAMA3\<close>).
\<close>

theorem ollama_default_mode_witness:
  "installed (env_with [''openai''] []) ''openai'' \<and> wf_kwargs (map_of []) \<and>
   (\<exists>c. snd (from_provider (env_with [''openai''] []) ''ollama/llama3.1''
              False PNone None (map_of [])) = Inr c
      \<and> call_kwargs c ''mode'' = Some (PMode TOOLS)) \<and>
   (\<exists>c. snd (from_provider (env_with [''openai''] []) ''ollama/some-unlisted-model''
              False PNone None (map_of [])) = Inr c
      \<and> call_kwargs c ''mode'' = Some (PMode JSON)) \<and>
   (\<exists>c. snd (from_provider (env_with [''openai''] []) ''ollama/LLAMA3.1:8B''
              False PNone None (map_of [])) = Inr c
      \<and> call_kwargs c ''mode'' = Some (PMode TOOLS)) \<and>
   (\<exists>c. snd (from_provider (env_with [''openai''] []) ''ollama/library/Qwen3:14b''
              False PNone None (map_of [])) = Inr c
      \<and> call_kwargs c ''mode'' = Some (PMode TOOLS)) \<and>
   (\<exists>c. snd (from_provider (env_with [''openai''] []) ''ollama/Devstral-Small''
              False PNone None (map_of [])) = Inr c
      \<and> call_kwargs c ''mode'' = Some (PMode TOOLS)) \<and>
   (\<exists>c. snd (from_provider (env_with [''openai''] []) ''ollama/LLAMA3''
              False PNone None (map_of [])) = Inr c
      \<and> call_kwargs c ''mode'' = Some (PMode JSON))"
proof -
  have i: "installed (env_with [''openai''] []) ''openai''" by (simp add: env_with_def)
  have w: "wf_kwargs (map_of [])" by (simp add: wf_kwargs_def)
  note inst = ollama_default_mode [OF i w, unfolded supports_tools_spelled_out [symmetric]]
  from inst [of "''llama3.1''" False PNone] supports_tools_examples(1)
  have a: "\<exists>c. snd (from_provider (env_with [''openai''] []) ''ollama/llama3.1''
              False PNone None (map_of [])) = Inr c
      \<and> call_kwargs c ''mode'' = Some (PMode TOOLS)"
    by auto
  from inst [of "''some-unlisted-model''" False PNone] supports_tools_examples(2)
  have b: "\<exists>c. snd (from_provider (env_with [''openai''] []) ''ollama/some-unlisted-model''
              False PNone None (map_of [])) = Inr c
      \<and> call_kwargs c ''mode'' = Some (PMode JSON)"
    by auto
  from inst [of "''LLAMA3.1:8B''" False PNone] supports_tools_examples(3)
  have c: "\<exists>c. snd (from_provider (env_with [''openai''] []) ''ollama/LLAMA3.1:8B''
              False PNone None (map_of [])) = Inr c
      \<and> call_kwargs c ''mode'' = Some (PMode TOOLS)"
    by auto
  from inst [of "''library/Qwen3:14b''" False PNone] supports_tools_examples(4)
  have d: "\<exists>c. snd (from_provider (env_with [''openai''] []) ''ollama/library/Qwen3:14b''
              False PNone None (map_of [])) = Inr c
      \<and> call_kwargs c ''mode'' = Some (PMode TOOLS)"
    by auto
  from inst [of "''Devstral-Small''" False PNone] supports_tools_examples(5)
  have f: "\<exists>c. snd (from_provider (env_with [''openai''] []) ''ollama/Devstral-Small''
              False PNone None (map_of [])) = Inr c
      \<and> call_kwargs c ''mode'' = Some (PMode TOOLS)"
    by auto
  from inst [of "''LLAMA3''" False PNone] supports_tools_examples(6)
  have g: "\<exists>c. snd (from_provider (env_with [''openai''] []) ''ollama/LLAMA3''
              False PNone None (map_of [])) = Inr c
      \<and> call_kwargs c ''mode'' = Some (PMode JSON)"
    by auto
  from i w a b c d f g show ?thesis by blast
qed

section \<open>The identifier without a separator\<close>

text \<open>
  Claim C9. An identifier with no \<^verbatim>\<open>"/"\<close> raises \<^verbatim>\<open>ConfigurationError\<close> with the message
  about the expected shape, and the run has no event before it: no import is attempted,
  no environment variable is read, no client is constructed, no warning is emitted.
\<close>

theorem no_separator_no_effects:
  "CHR ''/'' \<notin> set ident \<Longrightarrow>
   from_provider e ident async_client cache mode kwargs =
     ([], Inl (ConfigurationError parse_error_message))"
  by (simp add: from_provider_def split_no_slash raise_def)

text \<open>The identifier \<^verbatim>\<open>"gpt-4"\<close> of the specification.\<close>

theorem no_separator_no_effects_witness:
  "CHR ''/'' \<notin> set ''gpt-4'' \<and>
   from_provider (env_with [''openai''] [(''OPENAI_API_KEY'', ''k'')]) ''gpt-4'' False PNone None (map_of []) =
     ([], Inl (ConfigurationError parse_error_message))"
  using no_separator_no_effects [of "''gpt-4''" "env_with [''openai''] [(''OPENAI_API_KEY'', ''k'')]" False PNone None "map_of []"]
  by simp

section \<open>The unsupported provider\<close>

lemma sublist_join_comma: "x \<in> set xs \<Longrightarrow> sublist x (join_comma xs)"
proof (induction xs rule: join_comma.induct)
  case 1
  then show ?case by simp
next
  case (2 y)
  then show ?case by simp
next
  case (3 y z zs)
  show ?case
  proof (cases "x = y")
    case True
    then show ?thesis by simp
  next
    case False
    with 3 have "sublist x (join_comma (z # zs))" by simp
    then obtain ps ss where "join_comma (z # zs) = ps @ x @ ss" by (auto simp: sublist_def)
    then have "join_comma (y # z # zs) = (y @ '', '' @ ps) @ x @ ss" by simp
    then show ?thesis unfolding sublist_def by blast
  qed
qed

lemma sublist_py_str_list:
  assumes "x \<in> set xs"
  shows "sublist (py_repr_str x) (py_str_list xs)"
proof -
  from assms have "py_repr_str x \<in> set (map py_repr_str xs)" by simp
  then have "sublist (py_repr_str x) (join_comma (map py_repr_str xs))"
    by (rule sublist_join_comma)
  then obtain ps ss where "join_comma (map py_repr_str xs) = ps @ py_repr_str x @ ss"
    by (auto simp: sublist_def)
  then have "py_str_list xs = (''['' @ ps) @ py_repr_str x @ (ss @ '']'')"
    by (simp add: py_str_list_def)
  then show ?thesis unfolding sublist_def by blast
qed

lemma supported_providers_str:
  "py_str_list supported_providers =
    ''['openai', 'azure_openai', 'anthropic', 'google', 'generative-ai', 'vertexai', 'mistral', 'cohere', 'perplexity', 'groq', 'writer', 'bedrock', 'cerebras', 'fireworks', 'ollama', 'xai']''"
  by (simp add: py_str_list_def supported_providers_def py_repr_str_def)

lemma dispatch_unsupported:
  "provider \<notin> set supported_providers \<Longrightarrow>
   dispatch e provider a mode m kw = raise (ConfigurationError (unsupported_message provider))"
  by (simp add: dispatch_def supported_providers_def)

text \<open>
  Claim C8. When the part before the first \<^verbatim>\<open>"/"\<close> is none of the sixteen tokens, the
  call raises \<^verbatim>\<open>ConfigurationError\<close> before any import; the message ends with the
  printed list \<open>supported_providers\<close>, which holds every token in quotes, the deprecated
  aliases \<^verbatim>\<open>vertexai\<close> and \<^verbatim>\<open>generative-ai\<close> among them.
\<close>

theorem unsupported_provider_lists_tokens:
  assumes "CHR ''/'' \<notin> set provider" and "provider \<notin> set supported_providers"
  shows "from_provider e (provider @ ''/'' @ model_name) async_client cache mode kwargs =
           ([], Inl (ConfigurationError (unsupported_message provider)))
         \<and> sublist (py_str_list supported_providers) (unsupported_message provider)
         \<and> py_str_list supported_providers =
             ''['openai', 'azure_openai', 'anthropic', 'google', 'generative-ai', 'vertexai', 'mistral', 'cohere', 'perplexity', 'groq', 'writer', 'bedrock', 'cerebras', 'fireworks', 'ollama', 'xai']''
         \<and> (\<forall>p\<in>set supported_providers. sublist (py_repr_str p) (unsupported_message provider))"
proof -
  have "from_provider e (provider @ CHR ''/'' # model_name) async_client cache mode kwargs =
      ([], Inl (ConfigurationError (unsupported_message provider)))"
    using assms by (simp add: from_provider_dispatch dispatch_unsupported raise_def)
  then have run: "from_provider e (provider @ ''/'' @ model_name) async_client cache mode kwargs =
      ([], Inl (ConfigurationError (unsupported_message provider)))"
    by simp
  have whole: "sublist (py_str_list supported_providers) (unsupported_message provider)"
    unfolding unsupported_message_def
    by (metis append.assoc sublist_append_leftI)
  have each: "\<forall>p\<in>set supported_providers. sublist (py_repr_str p) (unsupported_message provider)"
    using whole sublist_py_str_list sublist_order.order_trans by blast
  from run whole each supported_providers_str show ?thesis by blast
qed

text \<open>The identifier \<^verbatim>\<open>"foobar/x"\<close> of the specification, with its whole message.\<close>

theorem unsupported_provider_lists_tokens_witness:
  "CHR ''/'' \<notin> set ''foobar'' \<and> ''foobar'' \<notin> set supported_providers \<and>
   from_provider (env_with [] []) ''foobar/x'' False PNone None (map_of []) =
     ([], Inl (ConfigurationError
       ''Unsupported provider: foobar. Supported providers are: ['openai', 'azure_openai', 'anthropic', 'google', 'generative-ai', 'vertexai', 'mistral', 'cohere', 'perplexity', 'groq', 'writer', 'bedrock', 'cerebras', 'fireworks', 'ollama', 'xai']''))"
proof -
  have a: "CHR ''/'' \<notin> set ''foobar''" by simp
  have b: "''foobar'' \<notin> set supported_providers" by (simp add: supported_providers_def)
  from unsupported_provider_lists_tokens [OF a b, of "env_with [] []" "''x''" False PNone None "map_of []"]
  have "from_provider (env_with [] []) (''foobar'' @ ''/'' @ ''x'') False PNone None (map_of []) =
      ([], Inl (ConfigurationError (unsupported_message ''foobar'')))"
    and "py_str_list supported_providers =
             ''['openai', 'azure_openai', 'anthropic', 'google', 'generative-ai', 'vertexai', 'mistral', 'cohere', 'perplexity', 'groq', 'writer', 'bedrock', 'cerebras', 'fireworks', 'ollama', 'xai']''"
    by blast+
  then have "from_provider (env_with [] []) ''foobar/x'' False PNone None (map_of []) =
     ([], Inl (ConfigurationError
       ''Unsupported provider: foobar. Supported providers are: ['openai', 'azure_openai', 'anthropic', 'google', 'generative-ai', 'vertexai', 'mistral', 'cohere', 'perplexity', 'groq', 'writer', 'bedrock', 'cerebras', 'fireworks', 'ollama', 'xai']''))"
    by (simp add: unsupported_message_def)
  with a b show ?thesis by blast
qed

section \<open>The anthropic branch: \<^verbatim>\<open>max_tokens\<close>\<close>

lemma dispatch_anthropic: "dispatch e ''anthropic'' = provider_anthropic e"
  by (simp add: dispatch_def fun_eq_iff)

lemma provider_anthropic_ok:
  assumes "installed e ''anthropic''" and "kw ''model'' = None" and "kw ''mode'' = None"
  shows "snd (provider_anthropic e a mode m kw) =
     Inr \<lparr>factory = ''from_anthropic'',
          native =
            \<lparr>sdk_class = (if a then ''anthropic.AsyncAnthropic'' else ''anthropic.Anthropic''),
             sdk_args = [], sdk_kwargs = Map.empty\<rparr>,
          call_kwargs =
            (kw(''max_tokens'' := None))
              ++ map_of [(''model'', PStr m), (''mode'', mode_or mode ANTHROPIC_TOOLS),
                         (''max_tokens'',
                          case kw ''max_tokens'' of None \<Rightarrow> PInt 4096 | Some v \<Rightarrow> v)]\<rparr>"
  using assms by (simp add: provider_anthropic_def run_simps del: mode_or_def)

text \<open>
  Claim C10. With the \<^verbatim>\<open>anthropic\<close> package installed, \<^verbatim>\<open>from_anthropic\<close> is called with
  \<^verbatim>\<open>max_tokens\<close> equal to the caller's keyword when there is one and 4096 otherwise; the
  keyword is popped from the dictionary, so the call passes it once (the run ends in the
  call, not in the \<^verbatim>\<open>TypeError\<close> of a keyword given twice), and every other keyword of
  the caller is forwarded as it is.
\<close>

theorem anthropic_max_tokens:
  assumes "installed e ''anthropic''" and "wf_kwargs kwargs"
  shows "\<exists>c. snd (from_provider e (''anthropic/'' @ m) a cache mode kwargs) = Inr c
           \<and> factory c = ''from_anthropic''
           \<and> call_kwargs c ''max_tokens'' =
               Some (case kwargs ''max_tokens'' of None \<Rightarrow> PInt 4096 | Some v \<Rightarrow> v)
           \<and> snd (pop ''max_tokens'' (PInt 4096) kwargs) ''max_tokens'' = None
           \<and> (\<forall>k. k \<notin> {''max_tokens'', ''model'', ''mode'', ''cache''} \<longrightarrow>
                  call_kwargs c k = kwargs k)"
proof -
  let ?kw = "if cache \<noteq> PNone then kwargs(''cache'' \<mapsto> cache) else kwargs"
  have "from_provider e (''anthropic'' @ CHR ''/'' # m) a cache mode kwargs =
     dispatch e ''anthropic'' a mode m ?kw"
    by (rule from_provider_dispatch) simp
  then have run: "snd (from_provider e (''anthropic/'' @ m) a cache mode kwargs) =
     snd (provider_anthropic e a mode m ?kw)"
    by (simp add: dispatch_anthropic)
  have "?kw ''model'' = None" and "?kw ''mode'' = None"
    using assms(2) by (simp_all add: wf_kwargs_def)
  from provider_anthropic_ok [OF assms(1) this] run show ?thesis
    by (simp add: pop_snd map_add_def)
qed

text \<open>A caller that passes \<^verbatim>\<open>max_tokens=100\<close>, and one that passes nothing.\<close>

theorem anthropic_max_tokens_witness:
  "installed (env_with [''anthropic''] []) ''anthropic''
   \<and> wf_kwargs (map_of [(''max_tokens'', PInt 100)]) \<and> wf_kwargs (map_of [])
   \<and> (\<exists>c. snd (from_provider (env_with [''anthropic''] []) ''anthropic/claude-3-sonnet'' False
                 PNone None (map_of [(''max_tokens'', PInt 100)])) = Inr c
          \<and> call_kwargs c ''max_tokens'' = Some (PInt 100))
   \<and> (\<exists>c. snd (from_provider (env_with [''anthropic''] []) ''anthropic/claude-3-sonnet'' False
                 PNone None (map_of [])) = Inr c
          \<and> call_kwargs c ''max_tokens'' = Some (PInt 4096))"
proof -
  have i: "installed (env_with [''anthropic''] []) ''anthropic''" by (simp add: env_with_def)
  have w1: "wf_kwargs (map_of [(''max_tokens'', PInt 100)])" by (simp add: wf_kwargs_def)
  have w0: "wf_kwargs (map_of [])" by (simp add: wf_kwargs_def)
  from anthropic_max_tokens [OF i w1, of "''claude-3-sonnet''" False PNone None]
  have a: "\<exists>c. snd (from_provider (env_with [''anthropic''] []) ''anthropic/claude-3-sonnet'' False
                 PNone None (map_of [(''max_tokens'', PInt 100)])) = Inr c
          \<and> call_kwargs c ''max_tokens'' = Some (PInt 100)"
    by auto
  from anthropic_max_tokens [OF i w0, of "''claude-3-sonnet''" False PNone None]
  have b: "\<exists>c. snd (from_provider (env_with [''anthropic''] []) ''anthropic/claude-3-sonnet'' False
                 PNone None (map_of [])) = Inr c
          \<and> call_kwargs c ''max_tokens'' = Some (PInt 4096)"
    by auto
  from i w1 w0 a b show ?thesis by blast
qed

section \<open>Runs of the branches that differ from their siblings\<close>

text \<open>
  Claim C1. The docstring of \<^verbatim>\<open>from_provider\<close> says that \<^verbatim>\<open>mode\<close> overrides the default
  mode of the provider. The openai, azure_openai, anthropic, ollama and xai branches
  forward it; the other branches never mention it. Here \<^verbatim>\<open>from_provider("groq/llama3",
  mode=Mode.JSON)\<close> calls \<^verbatim>\<open>from_groq\<close> with the model only, and the same override on
  \<^verbatim>\<open>"openai/gpt-4"\<close> reaches \<^verbatim>\<open>from_openai\<close>.
\<close>

theorem groq_drops_mode_override:
  "from_provider (env_with [''groq''] []) ''groq/llama3'' False PNone (Some JSON) (map_of []) =
     ([Import (Module ''groq''), Import (FromInstructor ''from_groq''),
       NewClient \<lparr>sdk_class = ''groq.Groq'', sdk_args = [], sdk_kwargs = map_of []\<rparr>],
      Inr \<lparr>factory = ''from_groq'',
           native = \<lparr>sdk_class = ''groq.Groq'', sdk_args = [], sdk_kwargs = map_of []\<rparr>,
           call_kwargs = map_of [(''model'', PStr ''llama3'')]\<rparr>)
   \<and> from_provider (env_with [''openai''] []) ''openai/gpt-4'' False PNone (Some JSON) (map_of []) =
     ([Import (Module ''openai''), Import (FromInstructor ''from_openai''),
       NewClient \<lparr>sdk_class = ''openai.OpenAI'', sdk_args = [], sdk_kwargs = map_of []\<rparr>],
      Inr \<lparr>factory = ''from_openai'',
           native = \<lparr>sdk_class = ''openai.OpenAI'', sdk_args = [], sdk_kwargs = map_of []\<rparr>,
           call_kwargs = map_of [(''model'', PStr ''gpt-4''), (''mode'', PMode JSON)]\<rparr>)"
  by (simp add: eval_defs provider_groq_def provider_openai_def fun_eq_iff map_add_def)

text \<open>
  Claim C3. The perplexity branch reads \<^verbatim>\<open>PERPLEXITY_API_KEY\<close> first and looks at the
  keyword \<^verbatim>\<open>api_key\<close> only when the variable is unset, and it reads the keyword with
  \<^verbatim>\<open>kwargs.get\<close>: with both present the client is built from the variable and the
  keyword is still forwarded to \<^verbatim>\<open>from_perplexity\<close>. The azure_openai branch pops the
  keyword, which wins over the variable and is not forwarded.
\<close>

theorem perplexity_prefers_environment_key:
  "from_provider (env_with [''openai''] [(''PERPLEXITY_API_KEY'', ''from-env'')])
      ''perplexity/sonar'' False PNone None (map_of [(''api_key'', PStr ''from-kwarg'')]) =
     ([Import (Module ''openai''), Import (FromInstructor ''from_perplexity''),
       EnvGet ''PERPLEXITY_API_KEY'', EnvGet ''PERPLEXITY_API_KEY'',
       NewClient \<lparr>sdk_class = ''openai.OpenAI'', sdk_args = [],
                  sdk_kwargs = map_of [(''api_key'', PStr ''from-env''),
                                      (''base_url'', PStr ''https://api.perplexity.ai'')]\<rparr>],
      Inr \<lparr>factory = ''from_perplexity'',
           native = \<lparr>sdk_class = ''openai.OpenAI'', sdk_args = [],
                     sdk_kwargs = map_of [(''api_key'', PStr ''from-env''),
                                         (''base_url'', PStr ''https://api.perplexity.ai'')]\<rparr>,
           call_kwargs = map_of [(''api_key'', PStr ''from-kwarg''), (''model'', PStr ''sonar'')]\<rparr>)
   \<and> from_provider
        (env_with [''openai'']
           [(''AZURE_OPENAI_API_KEY'', ''from-env''), (''AZURE_OPENAI_ENDPOINT'', ''https://e'')])
        ''azure_openai/gpt-4'' False PNone None (map_of [(''api_key'', PStr ''from-kwarg'')]) =
     ([Import (Module ''openai''), Import (FromInstructor ''from_openai''),
       EnvGet ''AZURE_OPENAI_API_KEY'', EnvGet ''AZURE_OPENAI_ENDPOINT'',
       NewClient \<lparr>sdk_class = ''openai.AzureOpenAI'', sdk_args = [],
                  sdk_kwargs = map_of [(''api_key'', PStr ''from-kwarg''),
                                      (''api_version'', PStr ''2024-02-01''),
                                      (''azure_endpoint'', PStr ''https://e'')]\<rparr>],
      Inr \<lparr>factory = ''from_openai'',
           native = \<lparr>sdk_class = ''openai.AzureOpenAI'', sdk_args = [],
                     sdk_kwargs = map_of [(''api_key'', PStr ''from-kwarg''),
                                         (''api_version'', PStr ''2024-02-01''),
                                         (''azure_endpoint'', PStr ''https://e'')]\<rparr>,
           call_kwargs = map_of [(''model'', PStr ''gpt-4''), (''mode'', PMode TOOLS)]\<rparr>)"
  by (simp add: eval_defs provider_perplexity_def provider_azure_openai_def fun_eq_iff
      map_add_def)

text \<open>
  Claim C4. With neither a keyword nor \<^verbatim>\<open>MISTRAL_API_KEY\<close>, the mistral branch raises
  \<^verbatim>\<open>ValueError\<close>, and its message names no keyword; the azure_openai branch raises
  \<^verbatim>\<open>ConfigurationError\<close> naming the variable and the keyword.
\<close>

theorem mistral_missing_key_raises_ValueError:
  "from_provider (env_with [''mistralai''] []) ''mistral/mistral-large'' False PNone None (map_of []) =
     ([Import (Module ''mistralai''), Import (FromInstructor ''from_mistral''),
       EnvGet ''MISTRAL_API_KEY''],
      Inl (ValueError
        ''MISTRAL_API_KEY is not set. Set it with `export MISTRAL_API_KEY=<your-api-key>`.''))
   \<and> from_provider (env_with [''openai''] []) ''azure_openai/gpt-4'' False PNone None (map_of []) =
     ([Import (Module ''openai''), Import (FromInstructor ''from_openai''),
       EnvGet ''AZURE_OPENAI_API_KEY'', EnvGet ''AZURE_OPENAI_ENDPOINT''],
      Inl (ConfigurationError
        ''AZURE_OPENAI_API_KEY is not set. Set it with `export AZURE_OPENAI_API_KEY=<your-api-key>` or pass it as kwarg api_key=<your-api-key>''))"
  by (simp add: eval_defs provider_mistral_def provider_azure_openai_def)

text \<open>
  Claim C5. A failure path that raises neither \<^verbatim>\<open>ConfigurationError\<close> nor an import error:
  the vertexai branch without a project raises \<^verbatim>\<open>ValueError\<close>.
\<close>

theorem vertexai_missing_project_raises_ValueError:
  "from_provider (env_with [''google'', ''google.genai''] []) ''vertexai/gemini-pro'' False PNone None
      (map_of []) =
     ([DeprecationWarning
         ''The 'vertexai' provider is deprecated. Use 'google' provider with vertexai=True instead. Example: instructor.from_provider('google/gemini-pro', vertexai=True)'',
       Import (Module ''google.genai''), Import (FromInstructor ''from_genai''),
       EnvGet ''GOOGLE_CLOUD_PROJECT'', EnvGet ''GOOGLE_CLOUD_LOCATION''],
      Inl (ValueError
        ''Project ID is required for Vertex AI. Set it with `export GOOGLE_CLOUD_PROJECT=<your-project-id>` or pass it as kwarg project=<your-project-id>''))"
  by (simp add: eval_defs provider_vertexai_def)

section \<open>The identifier parser\<close>

text \<open>How the exceptions of a run follow from those of its parts.\<close>

lemma raises_only_raise: "Q e \<Longrightarrow> raises_only Q (raise e)"
  by (simp add: raises_only_def raise_def)

lemma raises_only_value: "raises_only Q (es, Inr x)"
  by (simp add: raises_only_def)

lemma raises_only_emit: "raises_only Q r \<Longrightarrow> raises_only Q (emit ev r)"
  by (simp add: raises_only_def emit_def)

lemma raises_only_bind:
  assumes "raises_only Q r" and "\<And>x. raises_only Q (k x)"
  shows "raises_only Q (bind_run r k)"
proof (cases "snd r")
  case (Inl e)
  with assms(1) show ?thesis by (simp add: raises_only_def bind_run_def)
next
  case (Inr x)
  with assms(2) [of x] show ?thesis by (simp add: raises_only_def bind_run_def)
qed

lemma raises_only_then:
  "raises_only Q r \<Longrightarrow> raises_only Q k \<Longrightarrow> raises_only Q (then_run r k)"
  by (simp add: then_run_def raises_only_bind)

lemma raises_only_except:
  "raises_only Q b \<Longrightarrow> Q h \<Longrightarrow> raises_only Q (except_ImportError b h)"
  by (auto simp add: raises_only_def except_ImportError_def split: sum.splits error.splits)

lemma raises_only_import: "(\<And>m. Q (ImportError m)) \<Longrightarrow> raises_only Q (py_import e i)"
  by (simp add: raises_only_def py_import_def)

lemma raises_only_new_client:
  "(\<And>k. Q (TypeError k)) \<Longrightarrow> raises_only Q (new_client cls args named kw)"
  by (simp add: raises_only_def new_client_def py_keywords_def raise_def Let_def
      split: list.splits)

lemma raises_only_call_adapter:
  "(\<And>k. Q (TypeError k)) \<Longrightarrow> raises_only Q (call_adapter f c named kw)"
  by (simp add: raises_only_def call_adapter_def py_keywords_def raise_def split: list.splits)

lemmas raises_only_intros = raises_only_except raises_only_then raises_only_bind
  raises_only_emit raises_only_import raises_only_new_client raises_only_call_adapter
  raises_only_raise raises_only_value

text \<open>No branch raises the \<^verbatim>\<open>ConfigurationError\<close> of the parser.\<close>

lemma npe_openai: "raises_only not_parse_error (provider_openai e a mode m kw)"
  unfolding provider_openai_def
  by (intro raises_only_intros) (simp_all add: parse_error_message_def)

lemma npe_azure: "raises_only not_parse_error (provider_azure_openai e a mode m kw)"
  unfolding provider_azure_openai_def case_prod_beta Let_def
  by (intro raises_only_intros) (auto simp: parse_error_message_def intro!: raises_only_intros)

lemma npe_anthropic: "raises_only not_parse_error (provider_anthropic e a mode m kw)"
  unfolding provider_anthropic_def case_prod_beta Let_def
  by (intro raises_only_intros) (auto simp: parse_error_message_def intro!: raises_only_intros)

lemma npe_google: "raises_only not_parse_error (provider_google e a mode m kw)"
  unfolding provider_google_def case_prod_beta Let_def
  by (intro raises_only_intros)
    (auto simp: parse_error_message_def simp del: extract_client_kwargs.simps
      intro!: raises_only_intros)

lemma npe_mistral: "raises_only not_parse_error (provider_mistral e a mode m kw)"
  unfolding provider_mistral_def case_prod_beta Let_def
  by (intro raises_only_intros) (auto simp: parse_error_message_def intro!: raises_only_intros)

lemma npe_cohere: "raises_only not_parse_error (provider_cohere e a mode m kw)"
  unfolding provider_cohere_def case_prod_beta Let_def
  by (intro raises_only_intros) (auto simp: parse_error_message_def intro!: raises_only_intros)

lemma npe_perplexity: "raises_only not_parse_error (provider_perplexity e a mode m kw)"
  unfolding provider_perplexity_def case_prod_beta Let_def
  by (intro raises_only_intros) (auto simp: parse_error_message_def intro!: raises_only_intros)

lemma npe_groq: "raises_only not_parse_error (provider_groq e a mode m kw)"
  unfolding provider_groq_def case_prod_beta Let_def
  by (intro raises_only_intros) (auto simp: parse_error_message_def intro!: raises_only_intros)

lemma npe_writer: "raises_only not_parse_error (provider_writer e a mode m kw)"
  unfolding provider_writer_def case_prod_beta Let_def
  by (intro raises_only_intros) (auto simp: parse_error_message_def intro!: raises_only_intros)

lemma npe_bedrock: "raises_only not_parse_error (provider_bedrock e a mode m kw)"
  unfolding provider_bedrock_def case_prod_beta Let_def
  by (intro raises_only_intros) (auto simp: parse_error_message_def intro!: raises_only_intros)

lemma npe_cerebras: "raises_only not_parse_error (provider_cerebras e a mode m kw)"
  unfolding provider_cerebras_def case_prod_beta Let_def
  by (intro raises_only_intros) (auto simp: parse_error_message_def intro!: raises_only_intros)

lemma npe_fireworks: "raises_only not_parse_error (provider_fireworks e a mode m kw)"
  unfolding provider_fireworks_def case_prod_beta Let_def
  by (intro raises_only_intros) (auto simp: parse_error_message_def intro!: raises_only_intros)

lemma npe_vertexai: "raises_only not_parse_error (provider_vertexai e a mode m kw)"
  unfolding provider_vertexai_def case_prod_beta Let_def
  by (intro raises_only_intros) (auto simp: parse_error_message_def intro!: raises_only_intros)

lemma npe_generative_ai: "raises_only not_parse_error (provider_generative_ai e a mode m kw)"
  unfolding provider_generative_ai_def case_prod_beta Let_def
  by (intro raises_only_intros) (auto simp: parse_error_message_def intro!: raises_only_intros)

lemma npe_ollama: "raises_only not_parse_error (provider_ollama e a mode m kw)"
  unfolding provider_ollama_def case_prod_beta Let_def
  by (intro raises_only_intros) (auto simp: parse_error_message_def intro!: raises_only_intros)

lemma npe_xai: "raises_only not_parse_error (provider_xai e a mode m kw)"
  unfolding provider_xai_def case_prod_beta Let_def
  by (intro raises_only_intros) (auto simp: parse_error_message_def intro!: raises_only_intros)

lemma unsupported_not_parse_error: "unsupported_message p \<noteq> parse_error_message"
  by (simp add: unsupported_message_def parse_error_message_def)

lemma npe_dispatch: "raises_only not_parse_error (dispatch e p a mode m kw)"
  unfolding dispatch_def
  by (simp add: npe_openai npe_azure npe_anthropic npe_google npe_mistral npe_cohere
      npe_perplexity npe_groq npe_writer npe_bedrock npe_cerebras npe_fireworks npe_vertexai
      npe_generative_ai npe_ollama npe_xai raises_only_raise unsupported_not_parse_error)

lemma has_slash_split:
  assumes "CHR ''/'' \<in> set s"
  shows "\<exists>p m. s = p @ CHR ''/'' # m \<and> CHR ''/'' \<notin> set p"
  using assms by (metis split_list_first)

text \<open>
  Claim C2, as the code has it. The identifier is split at its first \<^verbatim>\<open>"/"\<close>: without a
  separator the call raises \<^verbatim>\<open>ConfigurationError\<close> with the message about the expected
  shape; with one, the part before it is dispatched as the provider token with everything
  after it as the model name, and the parser's error is never raised, whether or not a
  part is empty.
\<close>

theorem identifier_split_on_first_separator:
  "(CHR ''/'' \<notin> set ident \<longrightarrow>
      from_provider e ident a cache mode kw = ([], Inl (ConfigurationError parse_error_message)))
   \<and> (CHR ''/'' \<notin> set p \<longrightarrow>
      from_provider e (p @ ''/'' @ m) a cache mode kw =
        dispatch e p a mode m (if cache \<noteq> PNone then kw(''cache'' \<mapsto> cache) else kw))
   \<and> (CHR ''/'' \<in> set ident \<longrightarrow>
      snd (from_provider e ident a cache mode kw) \<noteq> Inl (ConfigurationError parse_error_message))"
proof (intro conjI impI)
  assume "CHR ''/'' \<notin> set ident"
  then show "from_provider e ident a cache mode kw =
      ([], Inl (ConfigurationError parse_error_message))"
    by (simp add: from_provider_def split_no_slash raise_def)
next
  assume "CHR ''/'' \<notin> set p"
  then show "from_provider e (p @ ''/'' @ m) a cache mode kw =
        dispatch e p a mode m (if cache \<noteq> PNone then kw(''cache'' \<mapsto> cache) else kw)"
    using from_provider_dispatch [of p e m a cache mode kw] by simp
next
  assume "CHR ''/'' \<in> set ident"
  then obtain q n where ident: "ident = q @ CHR ''/'' # n" and q: "CHR ''/'' \<notin> set q"
    using has_slash_split by blast
  let ?kw = "if cache \<noteq> PNone then kw(''cache'' \<mapsto> cache) else kw"
  have "from_provider e ident a cache mode kw = dispatch e q a mode n ?kw"
    unfolding ident using q by (rule from_provider_dispatch)
  moreover have "raises_only not_parse_error (dispatch e q a mode n ?kw)"
    by (rule npe_dispatch)
  ultimately show "snd (from_provider e ident a cache mode kw) \<noteq>
      Inl (ConfigurationError parse_error_message)"
    by (auto simp: raises_only_def)
qed

theorem identifier_split_on_first_separator_witness:
  "CHR ''/'' \<notin> set ''gpt-4'' \<and> CHR ''/'' \<notin> set ''openai'' \<and> CHR ''/'' \<in> set ''openai/''
   \<and> from_provider (env_with [''openai''] []) ''gpt-4'' False PNone None (map_of []) =
        ([], Inl (ConfigurationError parse_error_message))
   \<and> from_provider (env_with [''openai''] []) ''openai/org/gpt-4'' False PNone None (map_of []) =
        dispatch (env_with [''openai''] []) ''openai'' False None ''org/gpt-4'' (map_of [])
   \<and> snd (from_provider (env_with [''openai''] []) ''openai/'' False PNone None (map_of [])) \<noteq>
        Inl (ConfigurationError parse_error_message)"
  using identifier_split_on_first_separator [of "''gpt-4''" "env_with [''openai''] []" False PNone None "map_of []" "''openai''" "''org/gpt-4''"]
    identifier_split_on_first_separator [of "''openai/''" "env_with [''openai''] []" False PNone None "map_of []" "''openai''" "''org/gpt-4''"]
  by simp

text \<open>
  Claim C2 as stated fails: \<^verbatim>\<open>"openai/"\<close> has an empty model part and the call reaches
  \<^verbatim>\<open>from_openai\<close> with the empty model name; \<^verbatim>\<open>"/gpt-4"\<close> has an empty provider part and
  raises the error of the unsupported provider, not the one about the shape.
\<close>

theorem empty_part_not_rejected:
  "from_provider (env_with [''openai''] []) ''openai/'' False PNone None (map_of []) =
     ([Import (Module ''openai''), Import (FromInstructor ''from_openai''),
       NewClient \<lparr>sdk_class = ''openai.OpenAI'', sdk_args = [], sdk_kwargs = map_of []\<rparr>],
      Inr \<lparr>factory = ''from_openai'',
           native = \<lparr>sdk_class = ''openai.OpenAI'', sdk_args = [], sdk_kwargs = map_of []\<rparr>,
           call_kwargs = map_of [(''model'', PStr []), (''mode'', PMode TOOLS)]\<rparr>)
   \<and> from_provider (env_with [''openai''] []) ''/gpt-4'' False PNone None (map_of []) =
     ([], Inl (ConfigurationError (unsupported_message [])))
   \<and> unsupported_message [] \<noteq> parse_error_message"
  by (simp add: eval_defs provider_openai_def unsupported_message_def parse_error_message_def
      fun_eq_iff map_add_def)

section \<open>The deprecated \<^verbatim>\<open>vertexai\<close> token\<close>

text \<open>How the warnings of a run follow from those of its parts.\<close>

lemma warnings_of_append: "warnings_of (xs @ ys) = warnings_of xs @ warnings_of ys"
  by (induction xs rule: warnings_of.induct) simp_all

lemma quiet_raise: "warnings_of (fst (raise e)) = []"
  by (simp add: raise_def)

lemma quiet_value: "warnings_of (fst (([], Inr x) :: 'a run)) = []"
  by simp

lemma quiet_emit:
  "warnings_of [ev] = [] \<Longrightarrow> warnings_of (fst r) = [] \<Longrightarrow> warnings_of (fst (emit ev r)) = []"
  by (cases ev) (simp_all add: emit_def)

lemma quiet_bind:
  assumes "warnings_of (fst r) = []" and "\<And>x. warnings_of (fst (k x)) = []"
  shows "warnings_of (fst (bind_run r k)) = []"
  using assms by (cases "snd r") (simp_all add: bind_run_def warnings_of_append)

lemma quiet_then:
  "warnings_of (fst r) = [] \<Longrightarrow> warnings_of (fst k) = [] \<Longrightarrow>
   warnings_of (fst (then_run r k)) = []"
  by (simp add: then_run_def quiet_bind)

lemma fst_except_ImportError: "fst (except_ImportError b h) = fst b"
  by (simp add: except_ImportError_def split: sum.splits error.splits)

lemma quiet_except:
  "warnings_of (fst b) = [] \<Longrightarrow> warnings_of (fst (except_ImportError b h)) = []"
  by (simp add: fst_except_ImportError)

lemma quiet_import: "warnings_of (fst (py_import e i)) = []"
  by (simp add: py_import_def)

lemma quiet_new_client: "warnings_of (fst (new_client cls args named kw)) = []"
  by (simp add: new_client_def py_keywords_def raise_def Let_def split: list.splits)

lemma quiet_call_adapter: "warnings_of (fst (call_adapter f c named kw)) = []"
  by (simp add: call_adapter_def py_keywords_def raise_def split: list.splits)

lemmas quiet_intros = quiet_except quiet_then quiet_bind quiet_emit quiet_import
  quiet_new_client quiet_call_adapter quiet_raise quiet_value

lemma provider_google_quiet: "warnings_of (fst (provider_google e a mode m kw)) = []"
  unfolding provider_google_def case_prod_beta Let_def
  by (intro quiet_intros) (auto simp del: extract_client_kwargs.simps intro!: quiet_intros)

lemma quiet_after_warning:
  "warnings_of (fst r) = [] \<Longrightarrow> warnings_of (fst (emit (DeprecationWarning w) r)) = [w]"
  by (simp add: emit_def)

lemma provider_vertexai_warns:
  "warnings_of (fst (provider_vertexai e a mode m kw)) = [vertexai_deprecation]"
  unfolding provider_vertexai_def vertexai_deprecation_def case_prod_beta Let_def
  by (rule quiet_after_warning) (intro quiet_intros; auto intro!: quiet_intros)

lemma dispatch_vertexai: "dispatch e ''vertexai'' = provider_vertexai e"
  by (simp add: dispatch_def fun_eq_iff)

lemma dispatch_google: "dispatch e ''google'' = provider_google e"
  by (simp add: dispatch_def fun_eq_iff)

lemma from_provider_vertexai:
  "from_provider e (''vertexai/'' @ m) a cache mode kw =
     provider_vertexai e a mode m (if cache \<noteq> PNone then kw(''cache'' \<mapsto> cache) else kw)"
  using from_provider_dispatch [of "''vertexai''" e m a cache mode kw]
  by (simp add: dispatch_vertexai)

lemma from_provider_google:
  "from_provider e (''google/'' @ m) a cache mode kw =
     provider_google e a mode m (if cache \<noteq> PNone then kw(''cache'' \<mapsto> cache) else kw)"
  using from_provider_dispatch [of "''google''" e m a cache mode kw]
  by (simp add: dispatch_google)

lemma provider_vertexai_explicit:
  assumes "installed e ''google''" and "installed e ''google.genai''" and "truthy project"
  shows "snd (provider_vertexai e a mode m
            (map_of [(''project'', project), (''location'', location)])) =
     Inr \<lparr>factory = ''from_genai'',
          native = \<lparr>sdk_class = ''google.genai.Client'', sdk_args = [],
                    sdk_kwargs = map_of [(''vertexai'', PBool True), (''project'', project),
                                        (''location'', location)]\<rparr>,
          call_kwargs = (if a then map_of [(''model'', PStr m), (''use_async'', PBool True)]
                         else map_of [(''model'', PStr m)])\<rparr>"
  using assms
  by (simp add: provider_vertexai_def run_simps fun_eq_iff map_add_def)

lemma provider_google_explicit:
  assumes "installed e ''google''" and "installed e ''google.genai''"
  shows "snd (provider_google e a mode m
            (map_of [(''vertexai'', PBool True), (''project'', project),
                     (''location'', location)])) =
     Inr \<lparr>factory = ''from_genai'',
          native = \<lparr>sdk_class = ''google.genai.Client'', sdk_args = [],
                    sdk_kwargs = map_of [(''vertexai'', PBool True),
                                        (''api_key'', environ_get e ''GOOGLE_API_KEY''),
                                        (''project'', project), (''location'', location)]\<rparr>,
          call_kwargs = (if a then map_of [(''model'', PStr m), (''use_async'', PBool True)]
                         else map_of [(''model'', PStr m)])\<rparr>"
  using assms
  by (simp add: provider_google_def run_simps fun_eq_iff map_add_def)

text \<open>What each of the two branches resolves, for any keyword dictionary.\<close>

lemma extract_client_kwargs_eq:
  "extract_client_kwargs keys ck kw =
    ((\<lambda>k. if k \<in> set keys \<and> kw k \<noteq> None then kw k else ck k),
     (\<lambda>k. if k \<in> set keys then None else kw k))"
  by (induction keys arbitrary: ck kw) (auto simp: fun_eq_iff)

lemma provider_vertexai_resolves:
  assumes "installed e ''google''" and "installed e ''google.genai''"
    and "kw ''vertexai'' = None" and "kw ''use_async'' = None"
    and "pv = (case kw ''project'' of Some v \<Rightarrow> v
               | None \<Rightarrow> (case environ e ''GOOGLE_CLOUD_PROJECT'' of
                            Some s \<Rightarrow> PStr s | None \<Rightarrow> PNone))"
    and "lv = (case kw ''location'' of Some v \<Rightarrow> v
               | None \<Rightarrow> (case environ e ''GOOGLE_CLOUD_LOCATION'' of
                            Some s \<Rightarrow> PStr s | None \<Rightarrow> PStr ''us-central1''))"
    and "truthy pv"
  shows "snd (provider_vertexai e a mode m kw) =
     Inr \<lparr>factory = ''from_genai'',
          native = \<lparr>sdk_class = ''google.genai.Client'', sdk_args = [],
                    sdk_kwargs =
                      (\<lambda>k. if k = ''vertexai'' then Some (PBool True)
                           else if k = ''project'' then Some pv
                           else if k = ''location'' then Some lv
                           else kw k)\<rparr>,
          call_kwargs =
            (\<lambda>k. if k = ''model'' then Some (PStr m)
                 else if k = ''use_async'' \<and> a then Some (PBool True)
                 else if k = ''project'' \<or> k = ''location'' then None
                 else kw k)\<rparr>"
  using assms
  by (auto simp add: provider_vertexai_def run_simps Let_def environ_get_def
      environ_get_default_def fun_eq_iff map_add_def split: option.splits)

lemma provider_google_resolves:
  assumes "installed e ''google''" and "installed e ''google.genai''"
    and "kw ''model'' = None" and "kw ''use_async'' = None"
    and "flag = (case kw ''vertexai'' of Some v \<Rightarrow> v | None \<Rightarrow> PBool False)"
    and "key = (case kw ''api_key'' of Some v \<Rightarrow> v
                | None \<Rightarrow> (case environ e ''GOOGLE_API_KEY'' of
                             Some s \<Rightarrow> PStr s | None \<Rightarrow> PNone))"
  shows "snd (provider_google e a mode m kw) =
     Inr \<lparr>factory = ''from_genai'',
          native = \<lparr>sdk_class = ''google.genai.Client'', sdk_args = [],
                    sdk_kwargs =
                      (\<lambda>k. if k = ''vertexai'' then Some flag
                           else if k = ''api_key'' then Some key
                           else if k \<in> set [''debug_config'', ''http_options'', ''credentials'',
                                             ''project'', ''location'']
                           then kw k else None)\<rparr>,
          call_kwargs =
            (\<lambda>k. if k = ''model'' then Some (PStr m)
                 else if k = ''use_async'' \<and> a then Some (PBool True)
                 else if k \<in> set [''vertexai'', ''api_key'', ''debug_config'', ''http_options'',
                                   ''credentials'', ''project'', ''location'']
                 then None else kw k)\<rparr>"
  using assms
  by (auto simp add: provider_google_def run_simps Let_def environ_get_def extract_client_kwargs_eq
      fun_eq_iff map_add_def simp del: extract_client_kwargs.simps split: option.splits)

text \<open>
  Claim C7, as the code has it. A call with \<^verbatim>\<open>"vertexai/" + m\<close> emits exactly one
  deprecation warning and a call with \<^verbatim>\<open>"google/" + m\<close> none. The vertexai token takes
  the project from the keyword \<^verbatim>\<open>project\<close>, else from \<^verbatim>\<open>GOOGLE_CLOUD_PROJECT\<close>, and the
  location from the keyword \<^verbatim>\<open>location\<close>, else from \<^verbatim>\<open>GOOGLE_CLOUD_LOCATION\<close>, else
  \<^verbatim>\<open>us-central1\<close>; with a non-empty project it builds the client with \<^verbatim>\<open>vertexai=True\<close>,
  that project and location and every other keyword, and hands the other keywords and
  the model to \<^verbatim>\<open>from_genai\<close>. The google token takes \<^verbatim>\<open>vertexai\<close> from the keyword, else
  \<^verbatim>\<open>False\<close>, and \<^verbatim>\<open>api_key\<close> from the keyword, else from \<^verbatim>\<open>GOOGLE_API_KEY\<close>, else
  \<^verbatim>\<open>None\<close>; the client gets these two and, of the caller's keywords, only
  \<^verbatim>\<open>debug_config\<close>, \<^verbatim>\<open>http_options\<close>, \<^verbatim>\<open>credentials\<close>, \<^verbatim>\<open>project\<close> and \<^verbatim>\<open>location\<close> when
  passed. So when the caller passes a non-empty \<^verbatim>\<open>project\<close> and a \<^verbatim>\<open>location\<close> and nothing
  else, the vertexai call and the google call with \<^verbatim>\<open>vertexai=True\<close> hand the same
  keywords to \<^verbatim>\<open>from_genai\<close> and build the same client class with \<^verbatim>\<open>vertexai=True\<close> and
  that project and location; the google client is given \<^verbatim>\<open>api_key\<close> in addition.
\<close>

theorem vertexai_alias_of_google:
  assumes "installed e ''google''" and "installed e ''google.genai''"
  shows "warnings_of (fst (from_provider e (''vertexai/'' @ m) a cache mode kw)) =
           [vertexai_deprecation]
       \<and> warnings_of (fst (from_provider e (''google/'' @ m) a cache mode kw)) = []
       \<and> (wf_kwargs kw \<and> kw ''vertexai'' = None \<and> kw ''use_async'' = None
            \<and> pv = (case kw ''project'' of Some v \<Rightarrow> v
                     | None \<Rightarrow> (case environ e ''GOOGLE_CLOUD_PROJECT'' of
                                  Some s \<Rightarrow> PStr s | None \<Rightarrow> PNone))
            \<and> lv = (case kw ''location'' of Some v \<Rightarrow> v
                     | None \<Rightarrow> (case environ e ''GOOGLE_CLOUD_LOCATION'' of
                                  Some s \<Rightarrow> PStr s | None \<Rightarrow> PStr ''us-central1''))
            \<and> truthy pv \<longrightarrow>
          snd (from_provider e (''vertexai/'' @ m) a PNone mode kw) =
            Inr \<lparr>factory = ''from_genai'',
                 native = \<lparr>sdk_class = ''google.genai.Client'', sdk_args = [],
                           sdk_kwargs =
                             (\<lambda>k. if k = ''vertexai'' then Some (PBool True)
                                  else if k = ''project'' then Some pv
                                  else if k = ''location'' then Some lv
                                  else kw k)\<rparr>,
                 call_kwargs =
                   (\<lambda>k. if k = ''model'' then Some (PStr m)
                        else if k = ''use_async'' \<and> a then Some (PBool True)
                        else if k = ''project'' \<or> k = ''location'' then None
                        else kw k)\<rparr>)
       \<and> (wf_kwargs kw \<and> kw ''use_async'' = None
            \<and> flag = (case kw ''vertexai'' of Some v \<Rightarrow> v | None \<Rightarrow> PBool False)
            \<and> key = (case kw ''api_key'' of Some v \<Rightarrow> v
                      | None \<Rightarrow> (case environ e ''GOOGLE_API_KEY'' of
                                   Some s \<Rightarrow> PStr s | None \<Rightarrow> PNone)) \<longrightarrow>
          snd (from_provider e (''google/'' @ m) a PNone mode kw) =
            Inr \<lparr>factory = ''from_genai'',
                 native = \<lparr>sdk_class = ''google.genai.Client'', sdk_args = [],
                           sdk_kwargs =
                             (\<lambda>k. if k = ''vertexai'' then Some flag
                                  else if k = ''api_key'' then Some key
                                  else if k \<in> set [''debug_config'', ''http_options'',
                                                    ''credentials'', ''project'', ''location'']
                                  then kw k else None)\<rparr>,
                 call_kwargs =
                   (\<lambda>k. if k = ''model'' then Some (PStr m)
                        else if k = ''use_async'' \<and> a then Some (PBool True)
                        else if k \<in> set [''vertexai'', ''api_key'', ''debug_config'',
                                          ''http_options'', ''credentials'', ''project'',
                                          ''location'']
                        then None else kw k)\<rparr>)
       \<and> (truthy project \<longrightarrow>
          (\<exists>cv cg.
            snd (from_provider e (''vertexai/'' @ m) a PNone mode
                  (map_of [(''project'', project), (''location'', location)])) = Inr cv
          \<and> snd (from_provider e (''google/'' @ m) a PNone mode
                  (map_of [(''vertexai'', PBool True), (''project'', project),
                           (''location'', location)])) = Inr cg
          \<and> factory cv = ''from_genai'' \<and> factory cg = ''from_genai''
          \<and> call_kwargs cv = call_kwargs cg
          \<and> call_kwargs cv ''model'' = Some (PStr m)
          \<and> sdk_class (native cv) = sdk_class (native cg)
          \<and> sdk_args (native cv) = sdk_args (native cg)
          \<and> sdk_kwargs (native cv) =
              map_of [(''vertexai'', PBool True), (''project'', project),
                      (''location'', location)]
          \<and> sdk_kwargs (native cg) =
              (sdk_kwargs (native cv))
                (''api_key'' \<mapsto> (case environ e ''GOOGLE_API_KEY'' of
                                    Some s \<Rightarrow> PStr s | None \<Rightarrow> PNone))))"
proof (intro conjI impI)
  show "warnings_of (fst (from_provider e (''vertexai/'' @ m) a cache mode kw)) =
      [vertexai_deprecation]"
    by (simp only: from_provider_vertexai provider_vertexai_warns)
  show "warnings_of (fst (from_provider e (''google/'' @ m) a cache mode kw)) = []"
    by (simp only: from_provider_google provider_google_quiet)
next
  assume h: "wf_kwargs kw \<and> kw ''vertexai'' = None \<and> kw ''use_async'' = None
            \<and> pv = (case kw ''project'' of Some v \<Rightarrow> v
                     | None \<Rightarrow> (case environ e ''GOOGLE_CLOUD_PROJECT'' of
                                  Some s \<Rightarrow> PStr s | None \<Rightarrow> PNone))
            \<and> lv = (case kw ''location'' of Some v \<Rightarrow> v
                     | None \<Rightarrow> (case environ e ''GOOGLE_CLOUD_LOCATION'' of
                                  Some s \<Rightarrow> PStr s | None \<Rightarrow> PStr ''us-central1''))
            \<and> truthy pv"
  have "snd (from_provider e (''vertexai/'' @ m) a PNone mode kw) =
      snd (provider_vertexai e a mode m kw)"
    by (simp only: from_provider_vertexai) simp
  moreover from h have "kw ''vertexai'' = None" and "kw ''use_async'' = None"
    and "pv = (case kw ''project'' of Some v \<Rightarrow> v
               | None \<Rightarrow> (case environ e ''GOOGLE_CLOUD_PROJECT'' of
                            Some s \<Rightarrow> PStr s | None \<Rightarrow> PNone))"
    and "lv = (case kw ''location'' of Some v \<Rightarrow> v
               | None \<Rightarrow> (case environ e ''GOOGLE_CLOUD_LOCATION'' of
                            Some s \<Rightarrow> PStr s | None \<Rightarrow> PStr ''us-central1''))"
    and "truthy pv"
    by blast+
  note provider_vertexai_resolves [OF assms this, of a mode m]
  ultimately show "snd (from_provider e (''vertexai/'' @ m) a PNone mode kw) =
            Inr \<lparr>factory = ''from_genai'',
                 native = \<lparr>sdk_class = ''google.genai.Client'', sdk_args = [],
                           sdk_kwargs =
                             (\<lambda>k. if k = ''vertexai'' then Some (PBool True)
                                  else if k = ''project'' then Some pv
                                  else if k = ''location'' then Some lv
                                  else kw k)\<rparr>,
                 call_kwargs =
                   (\<lambda>k. if k = ''model'' then Some (PStr m)
                        else if k = ''use_async'' \<and> a then Some (PBool True)
                        else if k = ''project'' \<or> k = ''location'' then None
                        else kw k)\<rparr>"
    by (rule trans)
next
  assume h: "wf_kwargs kw \<and> kw ''use_async'' = None
            \<and> flag = (case kw ''vertexai'' of Some v \<Rightarrow> v | None \<Rightarrow> PBool False)
            \<and> key = (case kw ''api_key'' of Some v \<Rightarrow> v
                      | None \<Rightarrow> (case environ e ''GOOGLE_API_KEY'' of
                                   Some s \<Rightarrow> PStr s | None \<Rightarrow> PNone))"
  then have km: "kw ''model'' = None" by (simp add: wf_kwargs_def)
  have "snd (from_provider e (''google/'' @ m) a PNone mode kw) =
      snd (provider_google e a mode m kw)"
    by (simp only: from_provider_google) simp
  moreover from h have "kw ''use_async'' = None"
    and "flag = (case kw ''vertexai'' of Some v \<Rightarrow> v | None \<Rightarrow> PBool False)"
    and "key = (case kw ''api_key'' of Some v \<Rightarrow> v
                | None \<Rightarrow> (case environ e ''GOOGLE_API_KEY'' of
                             Some s \<Rightarrow> PStr s | None \<Rightarrow> PNone))"
    by blast+
  note provider_google_resolves [OF assms km this, of a mode m]
  ultimately show "snd (from_provider e (''google/'' @ m) a PNone mode kw) =
            Inr \<lparr>factory = ''from_genai'',
                 native = \<lparr>sdk_class = ''google.genai.Client'', sdk_args = [],
                           sdk_kwargs =
                             (\<lambda>k. if k = ''vertexai'' then Some flag
                                  else if k = ''api_key'' then Some key
                                  else if k \<in> set [''debug_config'', ''http_options'',
                                                    ''credentials'', ''project'', ''location'']
                                  then kw k else None)\<rparr>,
                 call_kwargs =
                   (\<lambda>k. if k = ''model'' then Some (PStr m)
                        else if k = ''use_async'' \<and> a then Some (PBool True)
                        else if k \<in> set [''vertexai'', ''api_key'', ''debug_config'',
                                          ''http_options'', ''credentials'', ''project'',
                                          ''location'']
                        then None else kw k)\<rparr>"
    by (rule trans)
next
  assume t: "truthy project"
  have v: "snd (from_provider e (''vertexai/'' @ m) a PNone mode
                  (map_of [(''project'', project), (''location'', location)])) =
      snd (provider_vertexai e a mode m (map_of [(''project'', project), (''location'', location)]))"
    by (simp only: from_provider_vertexai) simp
  have g: "snd (from_provider e (''google/'' @ m) a PNone mode
                  (map_of [(''vertexai'', PBool True), (''project'', project),
                           (''location'', location)])) =
      snd (provider_google e a mode m (map_of [(''vertexai'', PBool True), (''project'', project),
                           (''location'', location)]))"
    by (simp only: from_provider_google) simp
  show "\<exists>cv cg.
            snd (from_provider e (''vertexai/'' @ m) a PNone mode
                  (map_of [(''project'', project), (''location'', location)])) = Inr cv
          \<and> snd (from_provider e (''google/'' @ m) a PNone mode
                  (map_of [(''vertexai'', PBool True), (''project'', project),
                           (''location'', location)])) = Inr cg
          \<and> factory cv = ''from_genai'' \<and> factory cg = ''from_genai''
          \<and> call_kwargs cv = call_kwargs cg
          \<and> call_kwargs cv ''model'' = Some (PStr m)
          \<and> sdk_class (native cv) = sdk_class (native cg)
          \<and> sdk_args (native cv) = sdk_args (native cg)
          \<and> sdk_kwargs (native cv) =
              map_of [(''vertexai'', PBool True), (''project'', project),
                      (''location'', location)]
          \<and> sdk_kwargs (native cg) =
              (sdk_kwargs (native cv))
                (''api_key'' \<mapsto> (case environ e ''GOOGLE_API_KEY'' of
                                    Some s \<Rightarrow> PStr s | None \<Rightarrow> PNone))"
    unfolding v g provider_vertexai_explicit [OF assms t] provider_google_explicit [OF assms]
    by (simp add: fun_eq_iff environ_get_def)
qed

text \<open>
  With \<^verbatim>\<open>GOOGLE_CLOUD_PROJECT\<close> and \<^verbatim>\<open>GOOGLE_CLOUD_LOCATION\<close> set and no keyword, the
  vertexai client takes both from the environment; the google client with
  \<^verbatim>\<open>vertexai=True\<close> takes neither; with both passed as keywords the keywords win.
\<close>

theorem vertexai_alias_of_google_witness:
  "installed (env_with [''google'', ''google.genai'']
       [(''GOOGLE_CLOUD_PROJECT'', ''my-project''), (''GOOGLE_CLOUD_LOCATION'', ''europe-west4'')])
     ''google''
   \<and> installed (env_with [''google'', ''google.genai'']
       [(''GOOGLE_CLOUD_PROJECT'', ''my-project''), (''GOOGLE_CLOUD_LOCATION'', ''europe-west4'')])
     ''google.genai''
   \<and> wf_kwargs (map_of []) \<and> wf_kwargs (map_of [(''vertexai'', PBool True)])
   \<and> truthy (PStr ''my-project'')
   \<and> warnings_of (fst (from_provider (env_with [''google'', ''google.genai'']
         [(''GOOGLE_CLOUD_PROJECT'', ''my-project''), (''GOOGLE_CLOUD_LOCATION'', ''europe-west4'')])
         ''vertexai/gemini-pro'' False PNone None (map_of []))) = [vertexai_deprecation]
   \<and> warnings_of (fst (from_provider (env_with [''google'', ''google.genai'']
         [(''GOOGLE_CLOUD_PROJECT'', ''my-project''), (''GOOGLE_CLOUD_LOCATION'', ''europe-west4'')])
         ''google/gemini-pro'' False PNone None (map_of [(''vertexai'', PBool True)]))) = []
   \<and> (\<exists>cv. snd (from_provider (env_with [''google'', ''google.genai'']
         [(''GOOGLE_CLOUD_PROJECT'', ''my-project''), (''GOOGLE_CLOUD_LOCATION'', ''europe-west4'')])
         ''vertexai/gemini-pro'' False PNone None (map_of [])) = Inr cv
       \<and> sdk_kwargs (native cv) ''vertexai'' = Some (PBool True)
       \<and> sdk_kwargs (native cv) ''project'' = Some (PStr ''my-project'')
       \<and> sdk_kwargs (native cv) ''location'' = Some (PStr ''europe-west4'')
       \<and> sdk_kwargs (native cv) ''api_key'' = None)
   \<and> (\<exists>cg. snd (from_provider (env_with [''google'', ''google.genai'']
         [(''GOOGLE_CLOUD_PROJECT'', ''my-project''), (''GOOGLE_CLOUD_LOCATION'', ''europe-west4'')])
         ''google/gemini-pro'' False PNone None (map_of [(''vertexai'', PBool True)])) = Inr cg
       \<and> sdk_kwargs (native cg) ''vertexai'' = Some (PBool True)
       \<and> sdk_kwargs (native cg) ''project'' = None
       \<and> sdk_kwargs (native cg) ''location'' = None
       \<and> sdk_kwargs (native cg) ''api_key'' = Some PNone)
   \<and> (\<exists>cv cg.
         snd (from_provider (env_with [''google'', ''google.genai'']
               [(''GOOGLE_CLOUD_PROJECT'', ''my-project''),
                (''GOOGLE_CLOUD_LOCATION'', ''europe-west4'')])
               ''vertexai/gemini-pro'' False PNone None
               (map_of [(''project'', PStr ''my-project''),
                        (''location'', PStr ''europe-west1'')])) = Inr cv
       \<and> snd (from_provider (env_with [''google'', ''google.genai'']
               [(''GOOGLE_CLOUD_PROJECT'', ''my-project''),
                (''GOOGLE_CLOUD_LOCATION'', ''europe-west4'')])
               ''google/gemini-pro'' False PNone None
               (map_of [(''vertexai'', PBool True), (''project'', PStr ''my-project''),
                        (''location'', PStr ''europe-west1'')])) = Inr cg
       \<and> call_kwargs cv = call_kwargs cg
       \<and> sdk_kwargs (native cv) ''location'' = Some (PStr ''europe-west1'')
       \<and> sdk_kwargs (native cg) = (sdk_kwargs (native cv))(''api_key'' \<mapsto> PNone))"
proof -
  let ?e = "env_with [''google'', ''google.genai'']
       [(''GOOGLE_CLOUD_PROJECT'', ''my-project''), (''GOOGLE_CLOUD_LOCATION'', ''europe-west4'')]"
  have i1: "installed ?e ''google''" by (simp add: env_with_def)
  have i2: "installed ?e ''google.genai''" by (simp add: env_with_def)
  have w0: "wf_kwargs (map_of [])" by (simp add: wf_kwargs_def)
  have w1: "wf_kwargs (map_of [(''vertexai'', PBool True)])" by (simp add: wf_kwargs_def)
  have t: "truthy (PStr ''my-project'')" by simp
  have ep: "environ ?e ''GOOGLE_CLOUD_PROJECT'' = Some ''my-project''"
    and el: "environ ?e ''GOOGLE_CLOUD_LOCATION'' = Some ''europe-west4''"
    and ek: "environ ?e ''GOOGLE_API_KEY'' = None"
    by (simp_all add: env_with_def)
  note T = vertexai_alias_of_google [OF i1 i2]
  from T [where m = "''gemini-pro''" and a = False and cache = PNone and mode = None
      and kw = "map_of []" and pv = "PStr ''my-project''" and lv = "PStr ''europe-west4''"]
    w0 ep el
  have v: "warnings_of (fst (from_provider ?e ''vertexai/gemini-pro'' False PNone None
        (map_of []))) = [vertexai_deprecation]
    \<and> (\<exists>cv. snd (from_provider ?e ''vertexai/gemini-pro'' False PNone None (map_of [])) = Inr cv
       \<and> sdk_kwargs (native cv) ''vertexai'' = Some (PBool True)
       \<and> sdk_kwargs (native cv) ''project'' = Some (PStr ''my-project'')
       \<and> sdk_kwargs (native cv) ''location'' = Some (PStr ''europe-west4'')
       \<and> sdk_kwargs (native cv) ''api_key'' = None)"
    by simp
  from T [where m = "''gemini-pro''" and a = False and cache = PNone and mode = None
      and kw = "map_of [(''vertexai'', PBool True)]" and flag = "PBool True" and key = PNone]
    w1 ek
  have g: "warnings_of (fst (from_provider ?e ''google/gemini-pro'' False PNone None
        (map_of [(''vertexai'', PBool True)]))) = []
    \<and> (\<exists>cg. snd (from_provider ?e ''google/gemini-pro'' False PNone None
          (map_of [(''vertexai'', PBool True)])) = Inr cg
       \<and> sdk_kwargs (native cg) ''vertexai'' = Some (PBool True)
       \<and> sdk_kwargs (native cg) ''project'' = None
       \<and> sdk_kwargs (native cg) ''location'' = None
       \<and> sdk_kwargs (native cg) ''api_key'' = Some PNone)"
    by simp
  from T [where m = "''gemini-pro''" and a = False and mode = None
      and project = "PStr ''my-project''" and location = "PStr ''europe-west1''",
      THEN conjunct2, THEN conjunct2, THEN conjunct2, THEN conjunct2, THEN mp, OF t] ek
  have x: "\<exists>cv cg.
         snd (from_provider ?e ''vertexai/gemini-pro'' False PNone None
               (map_of [(''project'', PStr ''my-project''),
                        (''location'', PStr ''europe-west1'')])) = Inr cv
       \<and> snd (from_provider ?e ''google/gemini-pro'' False PNone None
               (map_of [(''vertexai'', PBool True), (''project'', PStr ''my-project''),
                        (''location'', PStr ''europe-west1'')])) = Inr cg
       \<and> call_kwargs cv = call_kwargs cg
       \<and> sdk_kwargs (native cv) ''location'' = Some (PStr ''europe-west1'')
       \<and> sdk_kwargs (native cg) = (sdk_kwargs (native cv))(''api_key'' \<mapsto> PNone)"
    by auto
  from i1 i2 w0 w1 t v g x show ?thesis by blast
qed

text \<open>
  Claim C7 as stated fails: with \<^verbatim>\<open>GOOGLE_CLOUD_PROJECT\<close> set and no keyword, the vertexai
  client is built with the project of the environment and the location
  \<^verbatim>\<open>us-central1\<close>, the google client with \<^verbatim>\<open>vertexai=True\<close> and \<^verbatim>\<open>api_key=None\<close> only.
\<close>

theorem vertexai_config_differs_from_google:
  "snd (from_provider (env_with [''google'', ''google.genai''] [(''GOOGLE_CLOUD_PROJECT'', ''my-project'')])
         ''vertexai/gemini-pro'' False PNone None (map_of [])) =
     Inr \<lparr>factory = ''from_genai'',
          native = \<lparr>sdk_class = ''google.genai.Client'', sdk_args = [],
                    sdk_kwargs = map_of [(''vertexai'', PBool True),
                                        (''project'', PStr ''my-project''),
                                        (''location'', PStr ''us-central1'')]\<rparr>,
          call_kwargs = map_of [(''model'', PStr ''gemini-pro'')]\<rparr>
   \<and> snd (from_provider (env_with [''google'', ''google.genai''] [(''GOOGLE_CLOUD_PROJECT'', ''my-project'')])
         ''google/gemini-pro'' False PNone None (map_of [(''vertexai'', PBool True)])) =
     Inr \<lparr>factory = ''from_genai'',
          native = \<lparr>sdk_class = ''google.genai.Client'', sdk_args = [],
                    sdk_kwargs = map_of [(''vertexai'', PBool True), (''api_key'', PNone)]\<rparr>,
          call_kwargs = map_of [(''model'', PStr ''gemini-pro'')]\<rparr>
   \<and> map_of [(''vertexai'', PBool True), (''project'', PStr ''my-project''),
              (''location'', PStr ''us-central1'')] ''project''
       \<noteq> map_of [(''vertexai'', PBool True), (''api_key'', PNone)] ''project''"
  by (simp add: eval_defs provider_vertexai_def provider_google_def fun_eq_iff map_add_def)

end
